theory Spec2Isabelle
  imports Complex_Main
begin

section \<open>Tensors, errors and elementwise arithmetic\<close>

text \<open>
  The renderer of \<^verbatim>\<open>nerf.ipynb\<close> works on torch tensors. The embedding keeps the last
  axis of a tensor as a list of channels and every batch axis as one more level of list.
  A float32 entry is a \<^typ>\<open>real\<close>, so the functions below compute in exact arithmetic:
  infinities and NaN are left out, and the rounding of float32 is defined apart
  (\<open>round32\<close>) and used where a property depends on it. An int64 index is an
  \<^typ>\<open>int\<close>, with the conversion from a float and the wrap-around of the addition
  written out. The calls to \<^verbatim>\<open>torch.rand\<close> are an explicit argument, the stream of
  draws.
\<close>

type_synonym vec = "real list"

datatype error = ValueError string | IndexError

definition vadd :: "vec \<Rightarrow> vec \<Rightarrow> vec" where
  "vadd u v = map2 (+) u v"

definition vsub :: "vec \<Rightarrow> vec \<Rightarrow> vec" where
  "vsub u v = map2 (-) u v"

definition vmul :: "vec \<Rightarrow> vec \<Rightarrow> vec" where
  "vmul u v = map2 (*) u v"

definition vdiv :: "vec \<Rightarrow> vec \<Rightarrow> vec" where
  "vdiv u v = map2 (/) u v"

definition vscale :: "real \<Rightarrow> vec \<Rightarrow> vec" where
  "vscale a v = map (\<lambda>x. a * x) v"

text \<open>\<^verbatim>\<open>torch.clamp(v, min=lo, max=hi)\<close> is \<open>min (max v lo) hi\<close>, on integers and on floats.\<close>

definition clamp_int :: "int \<Rightarrow> int \<Rightarrow> int \<Rightarrow> int" where
  "clamp_int v lo hi = min (max v lo) hi"

definition clamp_real :: "real \<Rightarrow> real \<Rightarrow> real \<Rightarrow> real" where
  "clamp_real v lo hi = min (max v lo) hi"

definition relu :: "real \<Rightarrow> real" where
  "relu v = max 0 v"

text \<open>Two fallible results combined: the first error wins, as the first raise would.\<close>

definition err_map2 :: "('a \<Rightarrow> 'b \<Rightarrow> 'c) \<Rightarrow> error + 'a \<Rightarrow> error + 'b \<Rightarrow> error + 'c" where
  "err_map2 f p q =
     (case p of Inl e \<Rightarrow> Inl e
      | Inr a \<Rightarrow> (case q of Inl e \<Rightarrow> Inl e | Inr b \<Rightarrow> Inr (f a b)))"

fun err_all :: "(error + 'a) list \<Rightarrow> error + 'a list" where
  "err_all [] = Inr []"
| "err_all (r # rs) = err_map2 (#) r (err_all rs)"

section \<open>Sampling from rays\<close>

text \<open>
  \<^verbatim>\<open>origins[..., None, :] + t_values[:, None] * directions[..., None, :]\<close>: one point per
  ray of the batch and per depth.
\<close>

definition sample_along_ray :: "real list \<Rightarrow> vec list \<Rightarrow> vec list \<Rightarrow> vec list list" where
  "sample_along_ray t_values origins directions =
     map2 (\<lambda>origin direction. map (\<lambda>t. vadd origin (vscale t direction)) t_values)
       origins directions"

text \<open>
  The depths that \<^verbatim>\<open>sample_rays\<close> really uses. In training the source draws
  \<^verbatim>\<open>torch.rand(n)\<close> once per call, here \<open>rand 0, \<dots>, rand (n - 1)\<close>, and adds
  \<open>(rand i - 0.5) / n\<close> to depth slot \<open>i\<close>.
\<close>

definition actual_ts :: "real list \<Rightarrow> bool \<Rightarrow> (nat \<Rightarrow> real) \<Rightarrow> real list" where
  "actual_ts t_values training rand =
     (if training then
        (let n = length t_values;
             random_scalar = map (\<lambda>i. (rand i - 0.5) / real n) [0..<n]
         in map2 (+) t_values random_scalar)
      else t_values)"

definition sample_rays :: "real list \<Rightarrow> vec list \<Rightarrow> bool \<Rightarrow> (nat \<Rightarrow> real) \<Rightarrow> vec list list" where
  "sample_rays t_values rays training rand =
     (let origins = map (take 3) rays;
          directions = map (drop 3) rays
      in sample_along_ray (actual_ts t_values training rand) origins directions)"

section \<open>Integration along rays\<close>

fun cumsum_from :: "real \<Rightarrow> real list \<Rightarrow> real list" where
  "cumsum_from s [] = []"
| "cumsum_from s (x # xs) = (s + x) # cumsum_from (s + x) xs"

definition cumsum :: "real list \<Rightarrow> real list" where
  "cumsum xs = cumsum_from 0 xs"

text \<open>
  The local \<^verbatim>\<open>weights\<close> of \<^verbatim>\<open>render_along_ray\<close>, for the samples of one ray:
  \<^verbatim>\<open>torch.ones_like(density[..., :1])\<close> is one 1 when there is a sample and nothing
  otherwise, \<^verbatim>\<open>trans[..., :-1]\<close> drops the last entry.
\<close>

definition ray_weights :: "real list \<Rightarrow> real list" where
  "ray_weights density =
     (let alpha = map (\<lambda>d. 1 - exp (- d)) density;
          cumulative_density = cumsum density;
          trans = map (\<lambda>c. exp (- c)) cumulative_density;
          trans = map (\<lambda>_. 1) (take 1 density) @ butlast trans
      in map2 (*) alpha trans)"

text \<open>\<^verbatim>\<open>einsum('...i,...ij->...j', weights, rgb)\<close> for one ray, with \<open>d\<close> channels.\<close>

definition einsum_i_ij :: "real list \<Rightarrow> vec list \<Rightarrow> nat \<Rightarrow> vec" where
  "einsum_i_ij ws rgb d = map (\<lambda>j. sum_list (map2 (\<lambda>w c. w * c ! j) ws rgb)) [0..<d]"

text \<open>
  \<^verbatim>\<open>render_along_ray\<close> on one ray: \<open>density\<close> has one entry per sample and \<open>rgb\<close> one
  colour per sample. The channel count is that of the background, which the last
  addition of the source requires of \<open>rgb\<close> as well.
\<close>

definition render_along_ray :: "real list \<Rightarrow> vec list \<Rightarrow> vec \<Rightarrow> vec" where
  "render_along_ray density rgb background =
     (let weights = ray_weights density;
          color_acc = einsum_i_ij weights rgb (length background);
          acc = sum_list weights
      in vadd color_acc (vscale (1 - acc) background))"

section \<open>A differentiable voxel grid\<close>

text \<open>
  \<^verbatim>\<open>torch.floor(x).long()\<close> converts the floor, an integral float, to int64. A floor
  outside \<open>[-2\<^sup>6\<^sup>3, 2\<^sup>6\<^sup>3)\<close> has no int64 value: the conversion instruction of x86-64
  then yields \<open>-2\<^sup>6\<^sup>3\<close>, and so does the model. \<^verbatim>\<open>x0 + 1\<close> is an int64 addition, which
  wraps around. \<^verbatim>\<open>x0.float()\<close> is exact on the floor of a float32 in range.
\<close>

definition to_long :: "int \<Rightarrow> int" where
  "to_long v = (if - (2 ^ 63) \<le> v \<and> v < 2 ^ 63 then v else - (2 ^ 63))"

definition add64 :: "int \<Rightarrow> int \<Rightarrow> int" where
  "add64 a b = (a + b + 2 ^ 63) mod 2 ^ 64 - 2 ^ 63"

definition bracket :: "real \<Rightarrow> int \<Rightarrow> int \<times> int \<times> real" where
  "bracket x n =
     (let x0 = to_long \<lfloor>x\<rfloor>;
          X0 = clamp_int x0 0 (n - 1);
          X1 = clamp_int (add64 x0 1) 0 (n - 1)
      in (X0, X1, clamp_real (x - of_int x0) 0 1))"

definition interpolate :: "vec \<Rightarrow> vec \<Rightarrow> real \<Rightarrow> vec" where
  "interpolate v0 v1 alpha =
     vadd (map (\<lambda>v. v * (1 - alpha)) v0) (map (\<lambda>v. v * alpha) v1)"

text \<open>
  \<^verbatim>\<open>self.grid\<close>: corner values, of storage shape \<open>(nx + 1, ny + 1, nz + 1, d)\<close>.
  Its first three sizes are read off the nesting; the constructor makes each at least 1.
\<close>

type_synonym voxel_grid = "vec list list list"

definition shape0 :: "voxel_grid \<Rightarrow> nat" where
  "shape0 g = length g"

definition shape1 :: "voxel_grid \<Rightarrow> nat" where
  "shape1 g = (case g of [] \<Rightarrow> 0 | p # _ \<Rightarrow> length p)"

definition shape2 :: "voxel_grid \<Rightarrow> nat" where
  "shape2 g = (case g of [] \<Rightarrow> 0 | p # _ \<Rightarrow> (case p of [] \<Rightarrow> 0 | r # _ \<Rightarrow> length r))"

text \<open>
  \<^verbatim>\<open>VoxelGrid.__init__\<close>: \<^verbatim>\<open>torch.rand(*storage_shape, d) * max\<close>, the draws given as
  a function of the position.
\<close>

definition VoxelGrid_init ::
  "nat \<times> nat \<times> nat \<Rightarrow> nat \<Rightarrow> real \<Rightarrow> (nat \<Rightarrow> nat \<Rightarrow> nat \<Rightarrow> nat \<Rightarrow> real) \<Rightarrow> voxel_grid" where
  "VoxelGrid_init shp d mx rnd =
     (case shp of (sx, sy, sz) \<Rightarrow>
        map (\<lambda>i. map (\<lambda>j. map (\<lambda>k. map (\<lambda>c. rnd i j k c * mx) [0..<d])
                                 [0..<sz + 1])
                       [0..<sy + 1])
            [0..<sx + 1])"

text \<open>
  One axis of \<^verbatim>\<open>self.grid[X, Y, Z, :]\<close>: an index below zero counts from the end, and an
  index outside \<open>[-n, n)\<close> raises.
\<close>

definition index_axis :: "'a list \<Rightarrow> int \<Rightarrow> error + 'a" where
  "index_axis xs i =
     (if 0 \<le> i \<and> i < int (length xs) then Inr (xs ! nat i)
      else if - int (length xs) \<le> i \<and> i < 0 then Inr (xs ! nat (int (length xs) + i))
      else Inl IndexError)"

definition grid_at :: "voxel_grid \<Rightarrow> int \<Rightarrow> int \<Rightarrow> int \<Rightarrow> error + vec" where
  "grid_at g X Y Z =
     (case index_axis g X of Inl e \<Rightarrow> Inl e
      | Inr plane \<Rightarrow>
          (case index_axis plane Y of Inl e \<Rightarrow> Inl e
           | Inr row \<Rightarrow> index_axis row Z))"

text \<open>
  \<^verbatim>\<open>VoxelGrid.forward\<close> at one point \<open>P\<close>. The final \<^verbatim>\<open>squeeze(-1)\<close> only drops the
  channel axis when \<open>d = 1\<close>; the model keeps the one-channel list.
\<close>

definition VoxelGrid_forward :: "voxel_grid \<Rightarrow> vec \<Rightarrow> error + vec" where
  "VoxelGrid_forward g P =
     (if length P < 3 then Inl IndexError
      else
        (let x = P ! 0; y = P ! 1; z = P ! 2;
             (X0, X1, a) = bracket x (int (shape0 g));
             (Y0, Y1, b) = bracket y (int (shape1 g));
             (Z0, Z1, c) = bracket z (int (shape2 g));
             y0z0 = err_map2 (\<lambda>v0 v1. interpolate v0 v1 a) (grid_at g X0 Y0 Z0) (grid_at g X1 Y0 Z0);
             y1z0 = err_map2 (\<lambda>v0 v1. interpolate v0 v1 a) (grid_at g X0 Y1 Z0) (grid_at g X1 Y1 Z0);
             y0z1 = err_map2 (\<lambda>v0 v1. interpolate v0 v1 a) (grid_at g X0 Y0 Z1) (grid_at g X1 Y0 Z1);
             y1z1 = err_map2 (\<lambda>v0 v1. interpolate v0 v1 a) (grid_at g X0 Y1 Z1) (grid_at g X1 Y1 Z1);
             z0 = err_map2 (\<lambda>v0 v1. interpolate v0 v1 b) y0z0 y1z0;
             z1 = err_map2 (\<lambda>v0 v1. interpolate v0 v1 b) y0z1 y1z1
         in err_map2 (\<lambda>v0 v1. interpolate v0 v1 c) z0 z1))"

text \<open>The same on a batch of rays with their samples.\<close>

definition VoxelGrid_forward_batch :: "voxel_grid \<Rightarrow> vec list list \<Rightarrow> error + vec list list" where
  "VoxelGrid_forward_batch g samples =
     err_all (map (\<lambda>ray_samples. err_all (map (VoxelGrid_forward g) ray_samples)) samples)"

text \<open>
  The invariant of a grid of \<open>d\<close> channels that the constructor sets up and the in-place
  updates of the values keep: a full box with at least one corner on each axis, each
  size an int64 as every size of a tensor is.
\<close>

definition grid_wf :: "voxel_grid \<Rightarrow> nat \<Rightarrow> bool" where
  "grid_wf g d \<longleftrightarrow>
     0 < shape0 g \<and> 0 < shape1 g \<and> 0 < shape2 g \<and>
     shape0 g < 2 ^ 63 \<and> shape1 g < 2 ^ 63 \<and> shape2 g < 2 ^ 63 \<and>
     (\<forall>plane \<in> set g. length plane = shape1 g \<and>
        (\<forall>row \<in> set plane. length row = shape2 g \<and> (\<forall>v \<in> set row. length v = d)))"

section \<open>DVGO\<close>

record Config =
  near :: real
  far :: real
  num_samples :: nat
  min_corner :: "real \<times> real \<times> real"
  max_corner :: "real \<times> real \<times> real"
  shape :: "nat \<times> nat \<times> nat"
  background :: vec

definition WHITE :: vec where
  "WHITE = [1, 1, 1]"

definition BLACK :: vec where
  "BLACK = [0, 0, 0]"

text \<open>\<^verbatim>\<open>Config()\<close>, every field at its default.\<close>

definition Config_default :: Config where
  "Config_default =
     \<lparr> near = 0.5, far = 3.5, num_samples = 64,
       min_corner = (- 1, - 1, - 1), max_corner = (1, 1, 1),
       shape = (16, 16, 16), background = WHITE \<rparr>"

text \<open>
  \<^verbatim>\<open>torch.linspace(start, end, steps)\<close>: \<open>steps\<close> equally spaced values from \<open>start\<close>
  to \<open>end\<close>, both included; a single step gives \<open>start\<close> alone.
\<close>

definition linspace :: "real \<Rightarrow> real \<Rightarrow> nat \<Rightarrow> real list" where
  "linspace start end steps =
     (if steps = 1 then [start]
      else map (\<lambda>i. start + real i * ((end - start) / real (steps - 1))) [0..<steps])"

definition tensor3 :: "real \<times> real \<times> real \<Rightarrow> vec" where
  "tensor3 t = (case t of (a, b, c) \<Rightarrow> [a, b, c])"

record SimpleDVGO =
  depths :: "real list"
  t_values :: "real list"
  min_t :: vec
  max_t :: vec
  shape_t :: vec
  rgb_voxel_grid :: voxel_grid
  density_voxel_grid :: voxel_grid
  background_t :: vec

text \<open>
  \<^verbatim>\<open>SimpleDVGO.__init__\<close>; \<open>rnd_rgb\<close> and \<open>rnd_density\<close> are the random draws that fill
  the two grids. \<^verbatim>\<open>depths[1:]\<close> is \<open>tl\<close> and \<^verbatim>\<open>depths[:-1]\<close> is \<open>butlast\<close>.
\<close>

definition SimpleDVGO_init ::
  "Config \<Rightarrow> (nat \<Rightarrow> nat \<Rightarrow> nat \<Rightarrow> nat \<Rightarrow> real) \<Rightarrow> (nat \<Rightarrow> nat \<Rightarrow> nat \<Rightarrow> nat \<Rightarrow> real) \<Rightarrow> SimpleDVGO" where
  "SimpleDVGO_init config rnd_rgb rnd_density =
     (let ds = linspace (near config) (far config) (num_samples config + 1)
      in \<lparr> depths = ds,
           t_values = map2 (\<lambda>u v. 0.5 * (u + v)) (tl ds) (butlast ds),
           min_t = tensor3 (min_corner config),
           max_t = tensor3 (max_corner config),
           shape_t = (case shape config of (n, m, p) \<Rightarrow> [real n, real m, real p]),
           rgb_voxel_grid = VoxelGrid_init (shape config) 3 1.0 rnd_rgb,
           density_voxel_grid = VoxelGrid_init (shape config) 1 0.001 rnd_density,
           background_t = background config \<rparr>)"

text \<open>
  \<^verbatim>\<open>SimpleDVGO.forward\<close> on a batch of \<open>B\<close> rays (a list of 6-vectors) with \<open>N\<close> depths.
  The density grid has one channel, so \<^verbatim>\<open>VoxelGrid.forward\<close> hands back one number per
  sample, the entry 0 of the model's one-channel list. \<^verbatim>\<open>torch.squeeze(density)\<close> then
  removes every axis of size 1 from the \<open>(B, N)\<close> tensor:
  \<^item> for \<open>B = 1\<close> and \<open>N = 1\<close> nothing is left, and \<^verbatim>\<open>density[..., :1]\<close> raises on the
    0-dimensional tensor;
  \<^item> for \<open>N = 1\<close> and another \<open>B\<close> the batch axis is taken for the sample axis: the weights
    are those of the \<open>B\<close> densities in a row, and the colour axis of size 1 is broadcast
    against them;
  \<^item> for \<open>B = 1\<close> and another \<open>N\<close> broadcasting restores the batch axis: the result is
    that of the ray alone, as in the general case.
\<close>

definition SimpleDVGO_forward ::
  "SimpleDVGO \<Rightarrow> vec list \<Rightarrow> bool \<Rightarrow> (nat \<Rightarrow> real) \<Rightarrow> error + vec list" where
  "SimpleDVGO_forward m rays training rand =
     (let samples = sample_rays (t_values m) rays training rand;
          rescaled = map (map (\<lambda>s. vdiv (vmul (shape_t m) (vsub s (min_t m)))
                                        (vsub (max_t m) (min_t m)))) samples
      in case VoxelGrid_forward_batch (density_voxel_grid m) rescaled of
           Inl e \<Rightarrow> Inl e
         | Inr raw_density \<Rightarrow>
             (case VoxelGrid_forward_batch (rgb_voxel_grid m) rescaled of
                Inl e \<Rightarrow> Inl e
              | Inr raw_rgb \<Rightarrow>
                  (let density = map (map (\<lambda>v. relu (v ! 0))) raw_density;
                       rgb = map (map (map (\<lambda>c. clamp_real c 0 1))) raw_rgb;
                       B = length rays;
                       N = length (t_values m)
                   in if B = 1 \<and> N = 1 then Inl IndexError
                      else if N = 1 then
                        Inr (map (\<lambda>ray_rgb. render_along_ray (concat density)
                                     (replicate B (hd ray_rgb)) (background_t m)) rgb)
                      else
                        Inr (map2 (\<lambda>d c. render_along_ray d c (background_t m)) density rgb))))"

text \<open>
  What the constructor establishes and updates of the grid values keep: the shapes of the
  two grids and of the three corner tensors. The box has a nonzero extent on every axis,
  otherwise the rescaling divides by zero and the floats are no longer numbers.
\<close>

definition dvgo_wf :: "SimpleDVGO \<Rightarrow> bool" where
  "dvgo_wf m \<longleftrightarrow>
     grid_wf (density_voxel_grid m) 1 \<and> grid_wf (rgb_voxel_grid m) 3 \<and>
     length (min_t m) = 3 \<and> length (max_t m) = 3 \<and> length (shape_t m) = 3 \<and>
     list_all2 (\<lambda>lo hi. lo \<noteq> hi) (min_t m) (max_t m)"

section \<open>Orthographic rays\<close>

text \<open>
  The two nested loops of \<^verbatim>\<open>create_rays\<close>, which write \<open>f j k\<close> at \<open>rays[j, k, :]\<close> of a
  tensor of zeros of shape \<open>(a, b, 6)\<close>.
\<close>

definition fill_rays :: "nat \<Rightarrow> nat \<Rightarrow> (nat \<Rightarrow> nat \<Rightarrow> vec) \<Rightarrow> vec list list" where
  "fill_rays a b f =
     fold (\<lambda>j rays. fold (\<lambda>k rays. rays[j := (rays ! j)[k := f j k]]) [0..<b] rays)
       [0..<a] (replicate a (replicate b (replicate 6 0)))"

text \<open>
  \<^verbatim>\<open>create_rays\<close>. The pixel centres divide by a grid size only inside a loop over that
  size, so never by zero.
\<close>

definition create_rays :: "Config \<Rightarrow> string \<Rightarrow> real \<Rightarrow> error + vec list list" where
  "create_rays config face off =
     (case shape config of (n, m, p) \<Rightarrow>
      (case min_corner config of (x_lo, y_lo, z_lo) \<Rightarrow>
      (case max_corner config of (x_hi, y_hi, z_hi) \<Rightarrow>
        (let get_x = (\<lambda>i. x_lo + (real i + 0.5) * ((x_hi - x_lo) / real n));
             get_y = (\<lambda>j. y_lo + (real j + 0.5) * ((y_hi - y_lo) / real m));
             get_z = (\<lambda>k. z_lo + (real k + 0.5) * ((z_hi - z_lo) / real p))
         in if face = ''x'' then
              Inr (fill_rays m p (\<lambda>j k. [x_lo - off, get_y j, get_z k, 1, 0, 0]))
            else if face = ''-x'' then
              Inr (fill_rays m p (\<lambda>j k. [x_hi + off, get_y j, get_z k, - 1, 0, 0]))
            else if face = ''y'' then
              Inr (fill_rays n p (\<lambda>i k. [get_x i, y_lo - off, get_z k, 0, 1, 0]))
            else if face = ''-y'' then
              Inr (fill_rays n p (\<lambda>i k. [get_x i, y_hi + off, get_z k, 0, - 1, 0]))
            else if face = ''z'' then
              Inr (fill_rays n m (\<lambda>i j. [get_x i, get_y j, z_lo - off, 0, 0, 1]))
            else if face = ''-z'' then
              Inr (fill_rays n m (\<lambda>i j. [get_x i, get_y j, z_hi + off, 0, 0, - 1]))
            else Inl (ValueError ''Invalid face id'')))))"

section \<open>Float32 rounding\<close>

text \<open>
  The source computes in float32. One operation is the exact operation followed by
  rounding to the nearest float32, ties to even: 24 significant bits, and multiples of
  \<open>2\<^sup>-\<^sup>1\<^sup>4\<^sup>9\<close> below \<open>2\<^sup>-\<^sup>1\<^sup>2\<^sup>6\<close>. Overflow to infinity is left out; the values
  evaluated below are far from it. \<^verbatim>\<open>torch.exp\<close> is taken as the rounded exponential; it
  is accurate to about one unit in the last place, which makes no difference below.
\<close>

definition round_even :: "real \<Rightarrow> int" where
  "round_even y =
     (let f = \<lfloor>y\<rfloor>; r = y - of_int f
      in if r < 1 / 2 then f else if 1 / 2 < r then f + 1 else if even f then f else f + 1)"

definition ulp_exponent :: "real \<Rightarrow> int" where
  "ulp_exponent x = max (\<lfloor>log 2 \<bar>x\<bar>\<rfloor> - 23) (- 149)"

definition round32 :: "real \<Rightarrow> real" where
  "round32 x =
     (if x = 0 then 0
      else of_int (round_even (x / 2 powi ulp_exponent x)) * 2 powi ulp_exponent x)"

definition sub32 :: "real \<Rightarrow> real \<Rightarrow> real" where
  "sub32 a b = round32 (a - b)"

definition mul32 :: "real \<Rightarrow> real \<Rightarrow> real" where
  "mul32 a b = round32 (a * b)"

definition exp32 :: "real \<Rightarrow> real" where
  "exp32 x = round32 (exp x)"

text \<open>
  \<^verbatim>\<open>render_along_ray\<close> in float32 on a ray with a single sample of density \<open>d\<close>. The
  opacity is \<^verbatim>\<open>1 - torch.exp(-density)\<close>; the transmittance of the only sample is the 1
  that is put in front; the weight is their product; \<^verbatim>\<open>acc\<close> is the sum over that one
  weight, the weight itself whatever the order of summation; the background is
  multiplied by \<^verbatim>\<open>1.0 - acc\<close>.
\<close>

definition alpha32 :: "real \<Rightarrow> real" where
  "alpha32 d = sub32 1 (exp32 (- d))"

definition acc32_single :: "real \<Rightarrow> real" where
  "acc32_single d = mul32 (alpha32 d) 1"

definition background_coefficient32_single :: "real \<Rightarrow> real" where
  "background_coefficient32_single d = sub32 1 (acc32_single d)"

section \<open>The specification's formulas\<close>

text \<open>
  The corner indices as the specification words them: clamped to \<open>[0, n - 1]\<close> with \<open>n\<close>
  the corner count of the axis minus 1.
\<close>

definition spec_low_index :: "real \<Rightarrow> int \<Rightarrow> int" where
  "spec_low_index x corners = (let n = corners - 1 in clamp_int \<lfloor>x\<rfloor> 0 (n - 1))"

definition spec_high_index :: "real \<Rightarrow> int \<Rightarrow> int" where
  "spec_high_index x corners = (let n = corners - 1 in clamp_int (\<lfloor>x\<rfloor> + 1) 0 (n - 1))"

text \<open>
  The compositing equation as the specification words it, the samples counted from 0:
  opacity \<open>1 - exp (- density\<^sub>i)\<close>, transmittance 1 for the first sample and the
  exponential of minus the densities before \<open>i\<close> for the others.
\<close>

definition spec_alpha :: "real list \<Rightarrow> nat \<Rightarrow> real" where
  "spec_alpha density i = 1 - exp (- (density ! i))"

definition spec_T :: "real list \<Rightarrow> nat \<Rightarrow> real" where
  "spec_T density i = (if i = 0 then 1 else exp (- (\<Sum>j<i. density ! j)))"

definition spec_weight :: "real list \<Rightarrow> nat \<Rightarrow> real" where
  "spec_weight density i = spec_alpha density i * spec_T density i"

definition spec_composite :: "real list \<Rightarrow> vec list \<Rightarrow> vec \<Rightarrow> vec" where
  "spec_composite density colors bg =
     map (\<lambda>ch. (\<Sum>i<length density. spec_weight density i * colors ! i ! ch)
               + (1 - (\<Sum>i<length density. spec_weight density i)) * bg ! ch)
       [0..<length bg]"

text \<open>\<open>lerp(a, b, t) = a * (1 - t) + b * t\<close>, nested along X, then Y, then Z.\<close>

definition lerp :: "vec \<Rightarrow> vec \<Rightarrow> real \<Rightarrow> vec" where
  "lerp a b t = map2 (\<lambda>u v. u * (1 - t) + v * t) a b"

definition trilinear_blend ::
  "vec \<Rightarrow> vec \<Rightarrow> vec \<Rightarrow> vec \<Rightarrow> vec \<Rightarrow> vec \<Rightarrow> vec \<Rightarrow> vec \<Rightarrow> real \<Rightarrow> real \<Rightarrow> real \<Rightarrow> vec" where
  "trilinear_blend c000 c100 c010 c110 c001 c101 c011 c111 tx ty tz =
     lerp (lerp (lerp c000 c100 tx) (lerp c010 c110 tx) ty)
          (lerp (lerp c001 c101 tx) (lerp c011 c111 tx) ty) tz"


section \<open>Vocabulary for the grid proofs\<close>

text \<open>
  The corner value at three indices that are in range, and one axis of the evaluation:
  the blend of the two values \<open>F\<close> has at the indices \<^verbatim>\<open>bracket\<close> returns.
\<close>

definition corner :: "voxel_grid \<Rightarrow> int \<Rightarrow> int \<Rightarrow> int \<Rightarrow> vec" where
  "corner g X Y Z = g ! nat X ! nat Y ! nat Z"

definition axis_lerp :: "(int \<Rightarrow> vec) \<Rightarrow> real \<Rightarrow> int \<Rightarrow> vec" where
  "axis_lerp F x n = (case bracket x n of (X0, X1, a) \<Rightarrow> lerp (F X0) (F X1) a)"

section \<open>Small inputs\<close>

text \<open>A grid of one voxel with one channel, the corner \<open>(i, j, k)\<close> holding \<open>i + 2 j + 4 k\<close>.\<close>

definition unit_grid :: voxel_grid where
  "unit_grid = [[[[0], [4]], [[2], [6]]], [[[1], [5]], [[3], [7]]]]"

section \<open>The compositor\<close>

lemma length_cumsum_from: "length (cumsum_from s xs) = length xs"
  by (induction xs arbitrary: s) auto

lemma cumsum_from_shift: "cumsum_from s xs = map (\<lambda>c. s + c) (cumsum_from 0 xs)"
proof (induction xs arbitrary: s)
  case Nil
  show ?case by simp
next
  case (Cons x xs)
  have "cumsum_from (s + x) xs = map (\<lambda>c. (s + x) + c) (cumsum_from 0 xs)"
    by (rule Cons.IH)
  moreover have "cumsum_from (0 + x) xs = map (\<lambda>c. x + c) (cumsum_from 0 xs)"
    using Cons.IH [of "0 + x"] by simp
  ultimately show ?case by (simp add: add.assoc)
qed

lemma map2_mult_scale:
  "map2 (*) as (map (\<lambda>t. k * t) ts) = map (\<lambda>w. (k::real) * w) (map2 (*) as ts)"
  by (induction as arbitrary: ts) (auto simp: zip_Cons1 split: list.splits)

lemma shifted_trans:
  assumes "length cs = length ds"
  shows "butlast (exp (- (d::real)) # map (\<lambda>c. exp (- (d + c))) cs)
         = map (\<lambda>t. exp (- d) * t)
             (map (\<lambda>_. 1) (take 1 ds) @ butlast (map (\<lambda>c. exp (- c)) cs))"
proof (cases ds)
  case Nil
  with assms show ?thesis by simp
next
  case (Cons x xs)
  with assms have ne: "cs \<noteq> []" by auto
  have e: "exp (- d - c) = exp (- d) * exp (- c)" for c
    using exp_add [of "- d" "- c"] by simp
  have m: "map (\<lambda>c. exp (- (d + c))) cs = map (\<lambda>t. exp (- d) * t) (map (\<lambda>c. exp (- c)) cs)"
    by (simp add: e)
  from ne Cons show ?thesis
    unfolding m by (simp add: map_butlast)
qed

lemma ray_weights_Nil: "ray_weights [] = []"
  by (simp add: ray_weights_def cumsum_def)

lemma ray_weights_Cons:
  "ray_weights (d # ds) = (1 - exp (- d)) # map (\<lambda>w. exp (- d) * w) (ray_weights ds)"
proof -
  have cs: "cumsum (d # ds) = d # map (\<lambda>c. d + c) (cumsum ds)"
    using cumsum_from_shift [of "0 + d" ds] by (simp add: cumsum_def)
  have len: "length (cumsum ds) = length ds"
    by (simp add: cumsum_def length_cumsum_from)
  have "ray_weights (d # ds)
        = map2 (*) ((1 - exp (- d)) # map (\<lambda>d. 1 - exp (- d)) ds)
            (1 # butlast (exp (- d) # map (\<lambda>c. exp (- (d + c))) (cumsum ds)))"
    unfolding ray_weights_def Let_def cs by (simp add: o_def)
  also have "\<dots> = (1 - exp (- d))
        # map2 (*) (map (\<lambda>d. 1 - exp (- d)) ds)
            (map (\<lambda>t. exp (- d) * t)
               (map (\<lambda>_. 1) (take 1 ds) @ butlast (map (\<lambda>c. exp (- c)) (cumsum ds))))"
    unfolding shifted_trans [OF len] by simp
  also have "\<dots> = (1 - exp (- d)) # map (\<lambda>w. exp (- d) * w) (ray_weights ds)"
    unfolding map2_mult_scale ray_weights_def Let_def by simp
  finally show ?thesis .
qed

lemma length_ray_weights: "length (ray_weights ds) = length ds"
  by (induction ds) (simp_all add: ray_weights_Nil ray_weights_Cons)

lemma sum_list_ray_weights: "sum_list (ray_weights ds) = 1 - exp (- sum_list ds)"
proof (induction ds)
  case Nil
  show ?case by (simp add: ray_weights_Nil)
next
  case (Cons d ds)
  have "sum_list (ray_weights (d # ds)) = (1 - exp (- d)) + exp (- d) * sum_list (ray_weights ds)"
    by (simp add: ray_weights_Cons sum_list_const_mult)
  also have "\<dots> = 1 - exp (- d) * exp (- sum_list ds)"
    by (simp add: Cons.IH algebra_simps)
  also have "\<dots> = 1 - exp (- sum_list (d # ds))"
    using exp_add [of "- d" "- sum_list ds"] by simp
  finally show ?case .
qed

lemma ray_weights_nonneg:
  "\<forall>d \<in> set ds. 0 \<le> d \<Longrightarrow> w \<in> set (ray_weights ds) \<Longrightarrow> 0 \<le> w"
proof (induction ds arbitrary: w)
  case Nil
  then show ?case by (simp add: ray_weights_Nil)
next
  case (Cons d ds)
  from Cons.prems have d: "0 \<le> d" and rest: "\<forall>d \<in> set ds. 0 \<le> d" by auto
  from Cons.prems(2) consider "w = 1 - exp (- d)"
    | v where "v \<in> set (ray_weights ds)" "w = exp (- d) * v"
    by (auto simp: ray_weights_Cons)
  then show ?case
  proof cases
    case 1
    with d show ?thesis by simp
  next
    case 2
    with Cons.IH [OF rest] show ?thesis by simp
  qed
qed

lemma spec_T_exp: "spec_T ds i = exp (- (\<Sum>j<i. ds ! j))"
  by (simp add: spec_T_def)

lemma ray_weights_nth:
  "i < length ds \<Longrightarrow> ray_weights ds ! i = spec_weight ds i"
proof (induction ds arbitrary: i)
  case Nil
  then show ?case by simp
next
  case (Cons d ds)
  show ?case
  proof (cases i)
    case 0
    then show ?thesis
      by (simp add: ray_weights_Cons spec_weight_def spec_alpha_def spec_T_def)
  next
    case (Suc k)
    with Cons.prems have k: "k < length ds" by simp
    have s: "(\<Sum>j<Suc k. (d # ds) ! j) = d + (\<Sum>j<k. ds ! j)"
      by (subst sum.lessThan_Suc_shift) simp
    have "spec_T (d # ds) (Suc k) = exp (- d) * spec_T ds k"
      unfolding spec_T_exp s using exp_add [of "- d" "- (\<Sum>j<k. ds ! j)"] by simp
    then have "spec_weight (d # ds) (Suc k) = exp (- d) * spec_weight ds k"
      by (simp add: spec_weight_def spec_alpha_def)
    with Cons.IH [OF k] k Suc show ?thesis
      by (simp add: ray_weights_Cons length_ray_weights)
  qed
qed

lemma length_render_along_ray: "length (render_along_ray ds cs bg) = length bg"
  by (simp add: render_along_ray_def Let_def vadd_def vscale_def einsum_i_ij_def)

lemma render_along_ray_nth:
  "j < length bg \<Longrightarrow>
   render_along_ray ds cs bg ! j
     = sum_list (map2 (\<lambda>w c. w * c ! j) (ray_weights ds) cs)
       + (1 - sum_list (ray_weights ds)) * bg ! j"
  by (simp add: render_along_ray_def Let_def vadd_def vscale_def einsum_i_ij_def)

lemma sum_list_map2_nth:
  "length xs = length ys \<Longrightarrow>
   sum_list (map2 f xs ys) = (\<Sum>i<length xs. (f (xs ! i) (ys ! i) :: real))"
proof -
  assume "length xs = length ys"
  then have "sum_list (map2 f xs ys) = (\<Sum>i<length (map2 f xs ys). map2 f xs ys ! i)"
    by (simp add: sum_list_sum_nth atLeast0LessThan)
  also have "\<dots> = (\<Sum>i<length xs. f (xs ! i) (ys ! i))"
    using \<open>length xs = length ys\<close> by (intro sum.cong) auto
  finally show ?thesis .
qed

text \<open>
  Claim C10, as the source has it. In exact arithmetic the weights \<open>alpha\<^sub>i * T\<^sub>i\<close>
  that \<^verbatim>\<open>render_along_ray\<close> evaluates sum to exactly \<open>1 - exp (- \<Sum> density)\<close>, and when
  no density is negative that sum is in \<open>[0, 1)\<close> and the coefficient \<open>1 - acc\<close> of the
  background in \<open>(0, 1]\<close>. The float32 values of the source are these up to rounding, and
  the strict bounds do not carry over to them (see below).
\<close>

theorem ray_weights_telescope:
  "sum_list (ray_weights density) = 1 - exp (- sum_list density) \<and>
   ((\<forall>d \<in> set density. 0 \<le> d) \<longrightarrow>
      0 \<le> sum_list (ray_weights density) \<and> sum_list (ray_weights density) < 1 \<and>
      0 < 1 - sum_list (ray_weights density) \<and> 1 - sum_list (ray_weights density) \<le> 1)"
proof (intro conjI impI)
  show "sum_list (ray_weights density) = 1 - exp (- sum_list density)"
    by (rule sum_list_ray_weights)
next
  assume nonneg: "\<forall>d \<in> set density. 0 \<le> d"
  then have "0 \<le> sum_list density"
    by (simp add: sum_list_nonneg)
  then have "exp (- sum_list density) \<le> 1"
    by simp
  moreover have "0 < exp (- sum_list density)"
    by simp
  ultimately show "0 \<le> sum_list (ray_weights density)"
    and "sum_list (ray_weights density) < 1"
    and "0 < 1 - sum_list (ray_weights density)"
    and "1 - sum_list (ray_weights density) \<le> 1"
    unfolding sum_list_ray_weights by simp_all
qed

theorem ray_weights_telescope_witness:
  "list_all (\<lambda>d. 0 \<le> d) [1, 0, 2 :: real] \<and>
   sum_list (ray_weights [1, 0, 2]) = 1 - exp (- 3) \<and>
   0 \<le> sum_list (ray_weights [1, 0, 2]) \<and> sum_list (ray_weights [1, 0, 2]) < 1 \<and>
   0 < 1 - sum_list (ray_weights [1, 0, 2]) \<and> 1 - sum_list (ray_weights [1, 0, 2]) \<le> 1"
  using ray_weights_telescope [of "[1, 0, 2]"] by simp

lemma round_even_bounds: "of_int (round_even y) \<le> y + 1" "0 \<le> y \<Longrightarrow> 0 \<le> round_even y"
proof -
  obtain k where k: "\<lfloor>y\<rfloor> = k" by simp
  then have f: "of_int k \<le> y" by linarith
  then show "of_int (round_even y) \<le> y + 1"
    unfolding round_even_def Let_def k by auto
  assume "0 \<le> y"
  with k have "0 \<le> k" by auto
  then show "0 \<le> round_even y"
    unfolding round_even_def Let_def k by auto
qed

lemma round32_one: "round32 1 = 1"
proof -
  have "ulp_exponent 1 = - 23"
    by (simp add: ulp_exponent_def)
  then show ?thesis
    by (simp add: round32_def round_even_def Let_def power_int_minus)
qed

lemma round32_nonneg: "0 \<le> x \<Longrightarrow> 0 \<le> round32 x"
  using round_even_bounds(2) [of "x / 2 powi ulp_exponent x"]
  by (simp add: round32_def)

lemma round32_upper:
  assumes "0 < x" and "x \<le> 2 powr of_int k"
  shows "round32 x \<le> x + 2 powi max (k - 23) (- 149)"
proof -
  let ?e = "ulp_exponent x"
  have "log 2 x \<le> of_int k"
    using assms by (simp add: log_le_iff)
  then have "\<lfloor>log 2 x\<rfloor> \<le> k"
    by (simp add: floor_le_iff)
  then have e: "?e \<le> max (k - 23) (- 149)"
    using assms(1) by (simp add: ulp_exponent_def)
  have u: "(2::real) powi ?e \<le> 2 powi max (k - 23) (- 149)"
    using e by (intro power_int_increasing) simp_all
  have p: "(0::real) < 2 powi ?e" by simp
  have "round32 x = of_int (round_even (x / 2 powi ?e)) * 2 powi ?e"
    using assms(1) by (simp add: round32_def)
  also have "\<dots> \<le> (x / 2 powi ?e + 1) * 2 powi ?e"
    using round_even_bounds(1) [of "x / 2 powi ?e"] p by (intro mult_right_mono) simp_all
  also have "\<dots> = x + 2 powi ?e"
    using p by (simp add: field_simps)
  finally show ?thesis using u by linarith
qed

lemma sub32_one_tiny:
  assumes "0 \<le> t" and "t \<le> 1 / 2 ^ 26"
  shows "sub32 1 t = 1"
proof (cases "t = 0")
  case True
  then show ?thesis by (simp add: sub32_def round32_one)
next
  case False
  with assms have t: "0 < t" by simp
  let ?x = "1 - t"
  have x: "1 / 2 \<le> ?x" "?x < 1"
    using assms t by (simp_all add: field_simps) 
  then have "\<lfloor>log 2 \<bar>?x\<bar>\<rfloor> = - 1"
    by (subst floor_log_eq_powr_iff) (simp_all add: powr_minus field_simps)
  then have e: "ulp_exponent ?x = - 24"
    by (simp add: ulp_exponent_def)
  have y: "?x / 2 powi (- 24) = 2 ^ 24 - t * 2 ^ 24"
    by (simp add: power_int_minus field_simps)
  have small: "0 < t * 2 ^ 24" "t * 2 ^ 24 \<le> 1 / 4"
    using t assms(2) by (simp_all add: field_simps)
  have fl: "\<lfloor>2 ^ 24 - t * 2 ^ 24\<rfloor> = 2 ^ 24 - 1"
    using small by (subst floor_eq_iff) simp
  have r: "round_even (2 ^ 24 - t * 2 ^ 24) = 2 ^ 24"
    using small unfolding round_even_def Let_def fl by simp
  have "round32 ?x = of_int (round_even (?x / 2 powi (- 24))) * 2 powi (- 24)"
    using x by (simp add: round32_def e)
  also have "\<dots> = 1"
    unfolding y r by (simp add: power_int_minus)
  finally show ?thesis by (simp add: sub32_def)
qed

lemma exp32_minus_100: "0 \<le> exp32 (- 100)" "exp32 (- 100) \<le> 1 / 2 ^ 26"
proof -
  show "0 \<le> exp32 (- 100)"
    unfolding exp32_def by (rule round32_nonneg) simp
  have "(2::real) \<le> exp 1"
    using exp_ge_add_one_self [of 1] by simp
  then have "(2::real) ^ 100 \<le> exp 1 ^ 100"
    by (intro power_mono) simp_all
  also have "\<dots> = exp 100"
    using exp_of_nat_mult [of 100 "1::real"] by simp
  finally have "exp (- 100 :: real) \<le> 1 / 2 ^ 100"
    by (simp add: exp_minus field_simps)
  then have small: "exp (- 100 :: real) \<le> 2 powr of_int (- 100)"
    by (simp add: powr_minus field_simps)
  have "exp32 (- 100) \<le> exp (- 100) + 2 powi max (- 100 - 23) (- 149)"
    unfolding exp32_def by (rule round32_upper [OF _ small]) simp
  also have "\<dots> \<le> 1 / 2 ^ 100 + 1 / 2 ^ 123"
    using \<open>exp (- 100 :: real) \<le> 1 / 2 ^ 100\<close> by (simp add: power_int_minus field_simps)
  also have "\<dots> \<le> 1 / 2 ^ 26"
    by simp
  finally show "exp32 (- 100) \<le> 1 / 2 ^ 26" .
qed

text \<open>
  Claim C10 as worded, about what the source computes, fails on a ray with the single
  density 100, the density of the cube in the notebook: \<open>exp (- 100)\<close> is below half a unit
  in the last place of 1, so the float32 opacity \<open>1 - exp (- 100)\<close> is exactly 1, the
  accumulated weight is 1 and the coefficient of the background is 0.
\<close>

theorem acc32_single_counterexample:
  "acc32_single 100 = 1 \<and> \<not> acc32_single 100 < 1 \<and>
   background_coefficient32_single 100 = 0 \<and> \<not> 0 < background_coefficient32_single 100"
proof -
  have a: "alpha32 100 = 1"
    unfolding alpha32_def by (rule sub32_one_tiny [OF exp32_minus_100])
  have acc: "acc32_single 100 = 1"
    by (simp add: acc32_single_def a mul32_def round32_one)
  have "background_coefficient32_single 100 = 0"
    by (simp add: background_coefficient32_single_def acc sub32_def round32_def)
  with acc show ?thesis by simp
qed

text \<open>
  Claim C2. For \<open>N\<close> densities and \<open>N\<close> colours, \<^verbatim>\<open>render_along_ray\<close> returns, channel by
  channel, \<open>\<Sum>\<^sub>i alpha\<^sub>i * T\<^sub>i * color\<^sub>i + (1 - \<Sum>\<^sub>i alpha\<^sub>i * T\<^sub>i) * background\<close> with
  \<open>alpha\<^sub>i = 1 - exp (- density\<^sub>i)\<close> and the exclusive transmittance: 1 for the first
  sample, \<open>exp (- \<Sum>\<^sub>j\<^sub><\<^sub>i density\<^sub>j)\<close> afterwards.
\<close>

theorem render_along_ray_is_spec_composite:
  assumes "length colors = length density"
  shows "render_along_ray density colors bg = spec_composite density colors bg"
proof (rule nth_equalityI)
  show "length (render_along_ray density colors bg) = length (spec_composite density colors bg)"
    by (simp add: length_render_along_ray spec_composite_def)
next
  fix j assume "j < length (render_along_ray density colors bg)"
  then have j: "j < length bg" by (simp add: length_render_along_ray)
  have len: "length (ray_weights density) = length colors"
    using assms by (simp add: length_ray_weights)
  have a: "sum_list (map2 (\<lambda>w c. w * c ! j) (ray_weights density) colors)
           = (\<Sum>i<length density. spec_weight density i * colors ! i ! j)"
    unfolding sum_list_map2_nth [OF len] length_ray_weights
    by (intro sum.cong) (simp_all add: ray_weights_nth)
  have b: "sum_list (ray_weights density) = (\<Sum>i<length density. spec_weight density i)"
    unfolding sum_list_sum_nth length_ray_weights atLeast0LessThan
    by (intro sum.cong) (simp_all add: ray_weights_nth)
  show "render_along_ray density colors bg ! j = spec_composite density colors bg ! j"
    using j by (simp add: render_along_ray_nth a b spec_composite_def)
qed

theorem render_along_ray_is_spec_composite_witness:
  "length [[1, 0, 0], [0, 1 / 2, 1 :: real]] = length [2, 3 :: real] \<and>
   render_along_ray [2, 3] [[1, 0, 0], [0, 1 / 2, 1]] WHITE
     = spec_composite [2, 3] [[1, 0, 0], [0, 1 / 2, 1]] WHITE"
  using render_along_ray_is_spec_composite [of "[[1, 0, 0], [0, 1 / 2, 1]]" "[2, 3]" WHITE]
  by simp










section \<open>The voxel grid\<close>

lemma interpolate_lerp: "interpolate v0 v1 t = lerp v0 v1 t"
  by (simp add: interpolate_def lerp_def vadd_def zip_map1 zip_map2 split_def)

lemma length_lerp: "length (lerp u v t) = min (length u) (length v)"
  by (simp add: lerp_def)

lemma lerp_same: "lerp u u t = u"
  by (induction u) (simp_all add: lerp_def algebra_simps)

lemma lerp_zero: "length u = length v \<Longrightarrow> lerp u v 0 = u"
  by (induction u v rule: list_induct2) (simp_all add: lerp_def)

lemma to_long_in_range: "- (2 ^ 63) \<le> v \<Longrightarrow> v < 2 ^ 63 \<Longrightarrow> to_long v = v"
  by (simp add: to_long_def)

lemma add64_in_range: "- (2 ^ 63) \<le> a + b \<Longrightarrow> a + b < 2 ^ 63 \<Longrightarrow> add64 a b = a + b"
  by (simp add: add64_def)

lemma bracket_in_range:
  assumes "- (2 ^ 63) \<le> x" and "x < 2 ^ 63 - 1"
  shows "bracket x n = (clamp_int \<lfloor>x\<rfloor> 0 (n - 1), clamp_int (\<lfloor>x\<rfloor> + 1) 0 (n - 1),
                        clamp_real (x - of_int \<lfloor>x\<rfloor>) 0 1)"
proof -
  obtain k where k: "\<lfloor>x\<rfloor> = k" by simp
  have lo: "- (2 ^ 63) \<le> k"
    using assms(1) k le_floor_iff [of "- (2 ^ 63)" x] by simp
  have hi: "k < 2 ^ 63 - 1"
    using assms(2) k floor_less_iff [of x "2 ^ 63 - 1"] by simp
  from lo hi have "to_long k = k" "add64 k 1 = k + 1"
    by (simp_all add: to_long_in_range add64_in_range)
  then show ?thesis
    by (simp add: bracket_def Let_def k)
qed

lemma bracket_overflow:
  assumes "0 < n" and "2 ^ 63 \<le> x"
  shows "bracket x n = (0, 0, 1)"
proof -
  obtain k where k: "\<lfloor>x\<rfloor> = k" by simp
  have "2 ^ 63 \<le> k"
    using assms(2) k le_floor_iff [of "2 ^ 63" x] by simp
  then have l: "to_long k = - (2 ^ 63)"
    by (simp add: to_long_def)
  have a: "add64 (- (2 ^ 63)) 1 = - (2 ^ 63) + 1"
    by (simp add: add64_def)
  show ?thesis
    unfolding bracket_def Let_def k l a
    using assms by (simp add: clamp_int_def clamp_real_def)
qed

lemma bracket_range:
  assumes "0 < n" and "bracket x n = (X0, X1, a)"
  shows "0 \<le> X0" "X0 < n" "0 \<le> X1" "X1 < n" "0 \<le> a" "a \<le> 1"
  using assms by (auto simp: bracket_def Let_def clamp_int_def clamp_real_def)

lemma grid_wf_lengths:
  assumes "grid_wf g d" and "i < shape0 g"
  shows "length (g ! i) = shape1 g"
    and "j < shape1 g \<Longrightarrow> length (g ! i ! j) = shape2 g"
    and "j < shape1 g \<Longrightarrow> k < shape2 g \<Longrightarrow> length (g ! i ! j ! k) = d"
proof -
  from assms have gi: "g ! i \<in> set g" by (simp add: shape0_def)
  with assms(1) show 1: "length (g ! i) = shape1 g"
    by (simp add: grid_wf_def)
  { assume j: "j < shape1 g"
    with 1 have "g ! i ! j \<in> set (g ! i)" by simp
    with assms(1) gi show 2: "length (g ! i ! j) = shape2 g"
      by (simp add: grid_wf_def)
    assume k: "k < shape2 g"
    with 2 have "g ! i ! j ! k \<in> set (g ! i ! j)" by simp
    with assms(1) gi \<open>g ! i ! j \<in> set (g ! i)\<close> show "length (g ! i ! j ! k) = d"
      by (simp add: grid_wf_def) }
qed

lemma index_axis_in_range:
  "0 \<le> i \<Longrightarrow> i < int (length xs) \<Longrightarrow> index_axis xs i = Inr (xs ! nat i)"
  by (simp add: index_axis_def)

lemma grid_at_corner:
  assumes "grid_wf g d"
    and "0 \<le> X" "X < int (shape0 g)" "0 \<le> Y" "Y < int (shape1 g)" "0 \<le> Z" "Z < int (shape2 g)"
  shows "grid_at g X Y Z = Inr (corner g X Y Z)" and "length (corner g X Y Z) = d"
proof -
  from assms have i: "nat X < shape0 g" and j: "nat Y < shape1 g" and k: "nat Z < shape2 g"
    by simp_all
  note L = grid_wf_lengths [OF assms(1) i]
  have "index_axis g X = Inr (g ! nat X)"
    using assms by (simp add: index_axis_in_range shape0_def)
  moreover have "index_axis (g ! nat X) Y = Inr (g ! nat X ! nat Y)"
    using assms L(1) by (simp add: index_axis_in_range)
  moreover have "index_axis (g ! nat X ! nat Y) Z = Inr (g ! nat X ! nat Y ! nat Z)"
    using assms L(2) [OF j] by (simp add: index_axis_in_range)
  ultimately show "grid_at g X Y Z = Inr (corner g X Y Z)"
    by (simp add: grid_at_def corner_def)
  show "length (corner g X Y Z) = d"
    using L(3) [OF j k] by (simp add: corner_def)
qed

lemma VoxelGrid_forward_axis_lerp:
  assumes "grid_wf g d"
  shows "VoxelGrid_forward g [x, y, z]
         = Inr (axis_lerp (\<lambda>Z. axis_lerp (\<lambda>Y. axis_lerp (\<lambda>X. corner g X Y Z)
                    x (int (shape0 g))) y (int (shape1 g))) z (int (shape2 g)))"
proof -
  obtain X0 X1 a where ex: "bracket x (int (shape0 g)) = (X0, X1, a)"
    by (cases "bracket x (int (shape0 g))") auto
  obtain Y0 Y1 b where ey: "bracket y (int (shape1 g)) = (Y0, Y1, b)"
    by (cases "bracket y (int (shape1 g))") auto
  obtain Z0 Z1 c where ez: "bracket z (int (shape2 g)) = (Z0, Z1, c)"
    by (cases "bracket z (int (shape2 g))") auto
  from assms have pos: "0 < int (shape0 g)" "0 < int (shape1 g)" "0 < int (shape2 g)"
    by (simp_all add: grid_wf_def)
  note rx = bracket_range [OF pos(1) ex]
  note ry = bracket_range [OF pos(2) ey]
  note rz = bracket_range [OF pos(3) ez]
  have at: "grid_at g X Y Z = Inr (corner g X Y Z)"
    if "X = X0 \<or> X = X1" "Y = Y0 \<or> Y = Y1" "Z = Z0 \<or> Z = Z1" for X Y Z
    using that rx ry rz by (intro grid_at_corner [OF assms]) auto
  show ?thesis
    by (simp add: VoxelGrid_forward_def ex ey ez at err_map2_def axis_lerp_def interpolate_lerp)
qed

lemma length_axis_lerp:
  assumes "0 < n" and "\<And>i. 0 \<le> i \<Longrightarrow> i < n \<Longrightarrow> length (F i) = d"
  shows "length (axis_lerp F x n) = d"
proof -
  obtain X0 X1 a where e: "bracket x n = (X0, X1, a)"
    by (cases "bracket x n") auto
  note r = bracket_range [OF assms(1) e]
  from r assms(2) have "length (F X0) = d" "length (F X1) = d" by simp_all
  then show ?thesis by (simp add: axis_lerp_def e length_lerp)
qed

lemma bracket_below:
  assumes "0 < n" and "- (2 ^ 63) \<le> x" and "x < 0"
  shows "bracket x n = (0, 0, x - of_int \<lfloor>x\<rfloor>)"
proof -
  obtain k where k: "\<lfloor>x\<rfloor> = k" by simp
  from assms(3) k have "k < 0" by (auto simp: floor_less_iff)
  moreover from k have "0 \<le> x - of_int k" "x - of_int k \<le> 1" by linarith+
  ultimately show ?thesis
    using assms bracket_in_range [of x n]
    by (simp add: k clamp_int_def clamp_real_def)
qed

lemma bracket_above:
  assumes "0 < n" and "of_int (n - 1) \<le> x" and "x < 2 ^ 63 - 1"
  shows "bracket x n = (n - 1, n - 1, x - of_int \<lfloor>x\<rfloor>)"
proof -
  obtain k where k: "\<lfloor>x\<rfloor> = k" by simp
  from assms(2) k have "n - 1 \<le> k" by (auto simp: le_floor_iff)
  moreover from k have "0 \<le> x - of_int k" "x - of_int k \<le> 1" by linarith+
  moreover from assms have "- (2 ^ 63) \<le> x" by simp
  ultimately show ?thesis
    using assms bracket_in_range [of x n]
    by (simp add: k clamp_int_def clamp_real_def)
qed

lemma bracket_zero: "0 < n \<Longrightarrow> bracket 0 n = (0, min 1 (n - 1), 0)"
  using bracket_in_range [of 0 n] by (simp add: clamp_int_def clamp_real_def)

lemma bracket_last:
  assumes "0 < n" and "n < 2 ^ 63"
  shows "bracket (of_int (n - 1)) n = (n - 1, n - 1, 0)"
proof -
  have "(of_int (n - 1) :: real) < 2 ^ 63 - 1"
    using assms(2) of_int_less_iff [of "n - 1" "2 ^ 63 - 1", where ?'a = real] by simp
  from bracket_above [OF assms(1) order_refl this] show ?thesis by simp
qed

lemma axis_lerp_clamp:
  assumes "0 < n" and "n < 2 ^ 63"
    and len: "\<And>i. 0 \<le> i \<Longrightarrow> i < n \<Longrightarrow> length (F i) = d"
    and lo: "- (2 ^ 63) \<le> x" and hi: "x < 2 ^ 63 - 1"
  shows "axis_lerp F (clamp_real x 0 (of_int (n - 1))) n = axis_lerp F x n"
proof -
  consider "x < 0" | "of_int (n - 1) < x" | "0 \<le> x" "x \<le> of_int (n - 1)"
    by linarith
  then show ?thesis
  proof cases
    case 1
    with assms(1) have c: "clamp_real x 0 (of_int (n - 1)) = 0"
      by (simp add: clamp_real_def)
    have "length (F 0) = length (F (min 1 (n - 1)))"
      using assms(1) by (simp add: len)
    then show ?thesis
      unfolding c
      by (simp add: axis_lerp_def bracket_below [OF assms(1) lo 1] bracket_zero [OF assms(1)]
          lerp_same lerp_zero)
  next
    case 2
    with assms(1) have c: "clamp_real x 0 (of_int (n - 1)) = of_int (n - 1)"
      by (simp add: clamp_real_def)
    have a: "bracket x n = (n - 1, n - 1, x - of_int \<lfloor>x\<rfloor>)"
      using 2 hi by (intro bracket_above [OF assms(1)]) simp_all
    note b = bracket_last [OF assms(1,2)]
    show ?thesis
      by (simp only: c axis_lerp_def a b prod.case lerp_same)
  next
    case 3
    then have "clamp_real x 0 (of_int (n - 1)) = x"
      by (simp add: clamp_real_def)
    then show ?thesis by simp
  qed
qed

lemma bracket_inside:
  assumes "int i + 1 < n" and "n < 2 ^ 63" and "real i < x" and "x < real i + 1"
  shows "bracket x n = (int i, int i + 1, x - real i)"
proof -
  from assms(3,4) have f: "\<lfloor>x\<rfloor> = int i" by (simp add: floor_eq_iff)
  from assms(1,2) have "int i + 1 < 2 ^ 63 - 1" by simp
  then have "real_of_int (int i + 1) < 2 ^ 63 - 1"
    using of_int_less_iff [of "int i + 1" "2 ^ 63 - 1", where ?'a = real] by simp
  with assms(4) have hi: "x < 2 ^ 63 - 1" by simp
  from assms(3) have lo: "- (2 ^ 63) \<le> x"
    by (smt (verit) of_nat_0_le_iff zero_le_power)
  show ?thesis
    unfolding bracket_in_range [OF lo hi] f
    using assms by (simp add: clamp_int_def clamp_real_def)
qed

lemma lerp_nth:
  "ch < length u \<Longrightarrow> ch < length v \<Longrightarrow> lerp u v t ! ch = u ! ch * (1 - t) + v ! ch * t"
  by (simp add: lerp_def)

lemma corner_lengths:
  assumes "grid_wf g d" "0 \<le> X" "X < int (shape0 g)" "0 \<le> Y" "Y < int (shape1 g)"
    "0 \<le> Z" "Z < int (shape2 g)"
  shows "length (corner g X Y Z) = d"
  using grid_at_corner(2) [OF assms] .

lemma trilinear_blend_nth:
  assumes "ch < d"
    and "length c000 = d" "length c100 = d" "length c010 = d" "length c110 = d"
    and "length c001 = d" "length c101 = d" "length c011 = d" "length c111 = d"
  shows "trilinear_blend c000 c100 c010 c110 c001 c101 c011 c111 a b c ! ch
         = (1 - a) * (1 - b) * (1 - c) * c000 ! ch + a * (1 - b) * (1 - c) * c100 ! ch
         + (1 - a) * b * (1 - c) * c010 ! ch + a * b * (1 - c) * c110 ! ch
         + (1 - a) * (1 - b) * c * c001 ! ch + a * (1 - b) * c * c101 ! ch
         + (1 - a) * b * c * c011 ! ch + a * b * c * c111 ! ch"
  using assms by (simp add: trilinear_blend_def lerp_nth length_lerp algebra_simps)

lemma unit_grid_wf: "grid_wf unit_grid 1"
  by (simp add: grid_wf_def unit_grid_def shape0_def shape1_def shape2_def)

lemma unit_grid_shape: "shape0 unit_grid = 2" "shape1 unit_grid = 2" "shape2 unit_grid = 2"
  by (simp_all add: unit_grid_def shape0_def shape1_def shape2_def)

lemma VoxelGrid_forward_blend:
  assumes "grid_wf g d"
  shows "VoxelGrid_forward g [x, y, z]
      = Inr (trilinear_blend
          (corner g (fst (bracket x (int (shape0 g)))) (fst (bracket y (int (shape1 g))))
             (fst (bracket z (int (shape2 g)))))
          (corner g (fst (snd (bracket x (int (shape0 g))))) (fst (bracket y (int (shape1 g))))
             (fst (bracket z (int (shape2 g)))))
          (corner g (fst (bracket x (int (shape0 g)))) (fst (snd (bracket y (int (shape1 g)))))
             (fst (bracket z (int (shape2 g)))))
          (corner g (fst (snd (bracket x (int (shape0 g))))) (fst (snd (bracket y (int (shape1 g)))))
             (fst (bracket z (int (shape2 g)))))
          (corner g (fst (bracket x (int (shape0 g)))) (fst (bracket y (int (shape1 g))))
             (fst (snd (bracket z (int (shape2 g))))))
          (corner g (fst (snd (bracket x (int (shape0 g))))) (fst (bracket y (int (shape1 g))))
             (fst (snd (bracket z (int (shape2 g))))))
          (corner g (fst (bracket x (int (shape0 g)))) (fst (snd (bracket y (int (shape1 g)))))
             (fst (snd (bracket z (int (shape2 g))))))
          (corner g (fst (snd (bracket x (int (shape0 g))))) (fst (snd (bracket y (int (shape1 g)))))
             (fst (snd (bracket z (int (shape2 g))))))
          (snd (snd (bracket x (int (shape0 g))))) (snd (snd (bracket y (int (shape1 g)))))
          (snd (snd (bracket z (int (shape2 g))))))"
  unfolding VoxelGrid_forward_axis_lerp [OF assms] axis_lerp_def trilinear_blend_def
  by (simp add: split_def)

lemmas unit_bracket_defs =
  bracket_def to_long_def add64_def Let_def clamp_int_def clamp_real_def

lemmas unit_grid_values = unit_grid_def trilinear_blend_def lerp_def corner_def

lemma unit_bracket_zero: "bracket 0 2 = (0, 1, 0)" "bracket 1 2 = (1, 1, 0)"
  by (simp_all add: unit_bracket_defs)

text \<open>
  Claim C1, as the source has it. \<^verbatim>\<open>VoxelGrid.forward\<close> passes the corner count of the
  axis to \<^verbatim>\<open>bracket\<close>, so on every axis, for a coordinate \<open>x\<close> with
  \<open>-2\<^sup>6\<^sup>3 \<le> x < 2\<^sup>6\<^sup>3 - 1\<close> (its floor and the floor plus 1 are int64 values), the low
  corner index is \<open>clamp (floor x) 0 n\<close> and the high one \<open>clamp (floor x + 1) 0 n\<close> with
  \<open>n\<close> the corner count minus 1, the voxel count: the upper bound is \<open>n\<close>, the last
  corner, and not \<open>n - 1\<close>. The evaluation blends the eight corner values at these
  indices.
\<close>

theorem VoxelGrid_forward_corner_indices:
  assumes "grid_wf g d"
    and "- (2 ^ 63) \<le> x" "x < 2 ^ 63 - 1"
    and "- (2 ^ 63) \<le> y" "y < 2 ^ 63 - 1"
    and "- (2 ^ 63) \<le> z" "z < 2 ^ 63 - 1"
  shows "let nx = int (shape0 g) - 1; ny = int (shape1 g) - 1; nz = int (shape2 g) - 1;
             X0 = clamp_int \<lfloor>x\<rfloor> 0 nx; X1 = clamp_int (\<lfloor>x\<rfloor> + 1) 0 nx;
             Y0 = clamp_int \<lfloor>y\<rfloor> 0 ny; Y1 = clamp_int (\<lfloor>y\<rfloor> + 1) 0 ny;
             Z0 = clamp_int \<lfloor>z\<rfloor> 0 nz; Z1 = clamp_int (\<lfloor>z\<rfloor> + 1) 0 nz;
             a = clamp_real (x - of_int \<lfloor>x\<rfloor>) 0 1;
             b = clamp_real (y - of_int \<lfloor>y\<rfloor>) 0 1;
             c = clamp_real (z - of_int \<lfloor>z\<rfloor>) 0 1
         in bracket x (int (shape0 g)) = (X0, X1, a) \<and>
            bracket y (int (shape1 g)) = (Y0, Y1, b) \<and>
            bracket z (int (shape2 g)) = (Z0, Z1, c) \<and>
            VoxelGrid_forward g [x, y, z]
              = Inr (trilinear_blend
                  (corner g X0 Y0 Z0) (corner g X1 Y0 Z0) (corner g X0 Y1 Z0) (corner g X1 Y1 Z0)
                  (corner g X0 Y0 Z1) (corner g X1 Y0 Z1) (corner g X0 Y1 Z1) (corner g X1 Y1 Z1)
                  a b c) \<and>
            0 \<le> X0 \<and> X0 \<le> nx \<and> 0 \<le> X1 \<and> X1 \<le> nx \<and>
            0 \<le> Y0 \<and> Y0 \<le> ny \<and> 0 \<le> Y1 \<and> Y1 \<le> ny \<and>
            0 \<le> Z0 \<and> Z0 \<le> nz \<and> 0 \<le> Z1 \<and> Z1 \<le> nz"
proof -
  from assms(1) have pos: "0 < int (shape0 g)" "0 < int (shape1 g)" "0 < int (shape2 g)"
    by (simp_all add: grid_wf_def)
  note bx = bracket_in_range [OF assms(2,3), of "int (shape0 g)"]
  note by' = bracket_in_range [OF assms(4,5), of "int (shape1 g)"]
  note bz = bracket_in_range [OF assms(6,7), of "int (shape2 g)"]
  have range: "0 \<le> clamp_int v 0 (n - 1) \<and> clamp_int v 0 (n - 1) \<le> n - 1" if "0 < n" for v n
    using that by (simp add: clamp_int_def)
  show ?thesis
    unfolding Let_def VoxelGrid_forward_blend [OF assms(1)] bx by' bz
    using range [OF pos(1)] range [OF pos(2)] range [OF pos(3)]
    by simp
qed

theorem VoxelGrid_forward_corner_indices_witness:
  "grid_wf unit_grid 1 \<and>
   bracket (1 / 2) (int (shape0 unit_grid)) = (0, 1, 1 / 2) \<and>
   bracket (- 3 / 2) (int (shape1 unit_grid)) = (0, 0, 1 / 2) \<and>
   bracket 3 (int (shape2 unit_grid)) = (1, 1, 0) \<and>
   VoxelGrid_forward unit_grid [1 / 2, - 3 / 2, 3] = Inr [9 / 2]"
  using VoxelGrid_forward_corner_indices [OF unit_grid_wf, of "1 / 2" "- 3 / 2" 3] unit_grid_wf
  by (simp add: Let_def unit_grid_shape clamp_int_def clamp_real_def)
     (simp add: unit_grid_def trilinear_blend_def lerp_def corner_def)

text \<open>
  Claim C1 as worded, with the bound \<open>n - 1\<close> and for every real coordinate, fails on
  the grid of one voxel. At \<open>x = 1 / 2\<close> the source reads the high corner at index 1
  and returns the blend \<open>1 / 2\<close> of the corners 0 and 1, where the worded bound gives
  index 0; at \<open>x = 3 / 2\<close> the source reads the low corner at index 1, the worded bound
  gives 0. At \<open>x = 2\<^sup>6\<^sup>3\<close> the floor is no int64 value and the source reads both corners
  at index 0, with weight 1, where the clamp of the floor is 1.
\<close>

theorem spec_corner_index_counterexample:
  "fst (snd (bracket (1 / 2) (int (shape0 unit_grid)))) = 1 \<and>
   spec_high_index (1 / 2) (int (shape0 unit_grid)) = 0 \<and>
   fst (snd (bracket (1 / 2) (int (shape0 unit_grid))))
     \<noteq> spec_high_index (1 / 2) (int (shape0 unit_grid)) \<and>
   fst (bracket (3 / 2) (int (shape0 unit_grid))) = 1 \<and>
   spec_low_index (3 / 2) (int (shape0 unit_grid)) = 0 \<and>
   fst (bracket (3 / 2) (int (shape0 unit_grid)))
     \<noteq> spec_low_index (3 / 2) (int (shape0 unit_grid)) \<and>
   VoxelGrid_forward unit_grid [1 / 2, 0, 0] = Inr [1 / 2] \<and>
   bracket 9223372036854775808 (int (shape0 unit_grid)) = (0, 0, 1) \<and>
   clamp_int \<lfloor>9223372036854775808 :: real\<rfloor> 0 (int (shape0 unit_grid) - 1) = 1"
proof -
  have b: "bracket (1 / 2) 2 = (0, 1, 1 / 2)" "bracket (3 / 2) 2 = (1, 1, 1 / 2)"
    "bracket 9223372036854775808 2 = (0, 0, 1)"
    by (simp_all add: unit_bracket_defs)
  have v: "VoxelGrid_forward unit_grid [1 / 2, 0, 0] = Inr [1 / 2]"
    unfolding VoxelGrid_forward_blend [OF unit_grid_wf] unit_grid_shape
    by (simp add: b unit_bracket_zero) (simp add: unit_grid_values)
  show ?thesis
    by (simp add: unit_grid_shape b v spec_high_index_def spec_low_index_def clamp_int_def)
qed

text \<open>
  Claim C4. At a point strictly inside the voxel cell \<open>(i, j, k)\<close> the evaluation is the
  blend of the eight corners of that cell by nested linear interpolation
  \<open>lerp a b t = a * (1 - t) + b * t\<close> along X, then Y, then Z, with the weights
  \<open>x - i\<close>, \<open>y - j\<close>, \<open>z - k\<close>; channel by channel this is the sum of the corner values
  weighted by the products of the weights.
\<close>

theorem VoxelGrid_forward_inside_cell:
  assumes "grid_wf g d"
    and "i + 1 < shape0 g" "j + 1 < shape1 g" "k + 1 < shape2 g"
    and "real i < x" "x < real i + 1" "real j < y" "y < real j + 1"
      "real k < z" "z < real k + 1"
  shows "VoxelGrid_forward g [x, y, z]
         = Inr (trilinear_blend
             (g ! i ! j ! k) (g ! (i + 1) ! j ! k)
             (g ! i ! (j + 1) ! k) (g ! (i + 1) ! (j + 1) ! k)
             (g ! i ! j ! (k + 1)) (g ! (i + 1) ! j ! (k + 1))
             (g ! i ! (j + 1) ! (k + 1)) (g ! (i + 1) ! (j + 1) ! (k + 1))
             (x - real i) (y - real j) (z - real k)) \<and>
         (\<forall>ch<d.
           trilinear_blend
             (g ! i ! j ! k) (g ! (i + 1) ! j ! k)
             (g ! i ! (j + 1) ! k) (g ! (i + 1) ! (j + 1) ! k)
             (g ! i ! j ! (k + 1)) (g ! (i + 1) ! j ! (k + 1))
             (g ! i ! (j + 1) ! (k + 1)) (g ! (i + 1) ! (j + 1) ! (k + 1))
             (x - real i) (y - real j) (z - real k) ! ch
           = (1 - (x - real i)) * (1 - (y - real j)) * (1 - (z - real k)) * g ! i ! j ! k ! ch
           + (x - real i) * (1 - (y - real j)) * (1 - (z - real k)) * g ! (i + 1) ! j ! k ! ch
           + (1 - (x - real i)) * (y - real j) * (1 - (z - real k)) * g ! i ! (j + 1) ! k ! ch
           + (x - real i) * (y - real j) * (1 - (z - real k)) * g ! (i + 1) ! (j + 1) ! k ! ch
           + (1 - (x - real i)) * (1 - (y - real j)) * (z - real k) * g ! i ! j ! (k + 1) ! ch
           + (x - real i) * (1 - (y - real j)) * (z - real k) * g ! (i + 1) ! j ! (k + 1) ! ch
           + (1 - (x - real i)) * (y - real j) * (z - real k) * g ! i ! (j + 1) ! (k + 1) ! ch
           + (x - real i) * (y - real j) * (z - real k) * g ! (i + 1) ! (j + 1) ! (k + 1) ! ch)"
proof (intro conjI allI impI)
  have ex: "bracket x (int (shape0 g)) = (int i, int i + 1, x - real i)"
    using assms by (intro bracket_inside) (simp_all add: grid_wf_def)
  have ey: "bracket y (int (shape1 g)) = (int j, int j + 1, y - real j)"
    using assms by (intro bracket_inside) (simp_all add: grid_wf_def)
  have ez: "bracket z (int (shape2 g)) = (int k, int k + 1, z - real k)"
    using assms by (intro bracket_inside) (simp_all add: grid_wf_def)
  have s: "nat (int n + 1) = n + 1" for n by simp
  show "VoxelGrid_forward g [x, y, z]
         = Inr (trilinear_blend
             (g ! i ! j ! k) (g ! (i + 1) ! j ! k)
             (g ! i ! (j + 1) ! k) (g ! (i + 1) ! (j + 1) ! k)
             (g ! i ! j ! (k + 1)) (g ! (i + 1) ! j ! (k + 1))
             (g ! i ! (j + 1) ! (k + 1)) (g ! (i + 1) ! (j + 1) ! (k + 1))
             (x - real i) (y - real j) (z - real k))"
    unfolding VoxelGrid_forward_axis_lerp [OF assms(1)] axis_lerp_def ex ey ez
      prod.case corner_def s nat_int trilinear_blend_def ..
next
  fix ch assume ch: "ch < d"
  have len: "length (g ! i' ! j' ! k') = d"
    if "i' < shape0 g" "j' < shape1 g" "k' < shape2 g" for i' j' k'
    using grid_wf_lengths(3) [OF assms(1) that] .
  show "trilinear_blend
             (g ! i ! j ! k) (g ! (i + 1) ! j ! k)
             (g ! i ! (j + 1) ! k) (g ! (i + 1) ! (j + 1) ! k)
             (g ! i ! j ! (k + 1)) (g ! (i + 1) ! j ! (k + 1))
             (g ! i ! (j + 1) ! (k + 1)) (g ! (i + 1) ! (j + 1) ! (k + 1))
             (x - real i) (y - real j) (z - real k) ! ch
           = (1 - (x - real i)) * (1 - (y - real j)) * (1 - (z - real k)) * g ! i ! j ! k ! ch
           + (x - real i) * (1 - (y - real j)) * (1 - (z - real k)) * g ! (i + 1) ! j ! k ! ch
           + (1 - (x - real i)) * (y - real j) * (1 - (z - real k)) * g ! i ! (j + 1) ! k ! ch
           + (x - real i) * (y - real j) * (1 - (z - real k)) * g ! (i + 1) ! (j + 1) ! k ! ch
           + (1 - (x - real i)) * (1 - (y - real j)) * (z - real k) * g ! i ! j ! (k + 1) ! ch
           + (x - real i) * (1 - (y - real j)) * (z - real k) * g ! (i + 1) ! j ! (k + 1) ! ch
           + (1 - (x - real i)) * (y - real j) * (z - real k) * g ! i ! (j + 1) ! (k + 1) ! ch
           + (x - real i) * (y - real j) * (z - real k) * g ! (i + 1) ! (j + 1) ! (k + 1) ! ch"
    using assms(2-4) by (intro trilinear_blend_nth [OF ch] len) simp_all
qed

theorem VoxelGrid_forward_inside_cell_witness:
  "grid_wf unit_grid 1 \<and>
   VoxelGrid_forward unit_grid [1 / 2, 1 / 4, 3 / 4] = Inr [4]"
proof -
  have wf: "grid_wf unit_grid 1"
    by (simp add: grid_wf_def unit_grid_def shape0_def shape1_def shape2_def)
  have sh: "shape0 unit_grid = 2" "shape1 unit_grid = 2" "shape2 unit_grid = 2"
    by (simp_all add: unit_grid_def shape0_def shape1_def shape2_def)
  from VoxelGrid_forward_inside_cell [OF wf, of 0 0 0 "1 / 2" "1 / 4" "3 / 4"] wf show ?thesis
    by (simp add: sh) (simp add: unit_grid_def trilinear_blend_def lerp_def)
qed

text \<open>
  In exact arithmetic, a coordinate in the int64 range can be moved to the nearest point
  of the index range of its axis without changing the value: both corners are then the
  boundary corner and \<open>lerp v v t = v\<close>. The float32 of the source rounds the two
  products of \<open>lerp\<close>, so there the two values agree up to rounding only.
\<close>

lemma VoxelGrid_forward_clamp_exact:
  assumes "grid_wf g d"
  shows "- (2 ^ 63) \<le> x \<Longrightarrow> x < 2 ^ 63 - 1 \<Longrightarrow>
         VoxelGrid_forward g [x, y, z]
           = VoxelGrid_forward g [clamp_real x 0 (real (shape0 g - 1)), y, z]"
    and "- (2 ^ 63) \<le> y \<Longrightarrow> y < 2 ^ 63 - 1 \<Longrightarrow>
         VoxelGrid_forward g [x, y, z]
           = VoxelGrid_forward g [x, clamp_real y 0 (real (shape1 g - 1)), z]"
    and "- (2 ^ 63) \<le> z \<Longrightarrow> z < 2 ^ 63 - 1 \<Longrightarrow>
         VoxelGrid_forward g [x, y, z]
           = VoxelGrid_forward g [x, y, clamp_real z 0 (real (shape2 g - 1))]"
proof -
  from assms have pos: "0 < int (shape0 g)" "0 < int (shape1 g)" "0 < int (shape2 g)"
    and small: "int (shape0 g) < 2 ^ 63" "int (shape1 g) < 2 ^ 63" "int (shape2 g) < 2 ^ 63"
    by (simp_all add: grid_wf_def)
  have n: "real (shape0 g - 1) = of_int (int (shape0 g) - 1)"
    "real (shape1 g - 1) = of_int (int (shape1 g) - 1)"
    "real (shape2 g - 1) = of_int (int (shape2 g) - 1)"
    using pos by (simp_all add: of_nat_diff)
  have lx: "length (axis_lerp (\<lambda>X. corner g X Y Z) x' (int (shape0 g))) = d"
    if "0 \<le> Y" "Y < int (shape1 g)" "0 \<le> Z" "Z < int (shape2 g)" for Y Z x'
    by (rule length_axis_lerp [OF pos(1)]) (simp add: corner_lengths [OF assms] that)
  have ly: "length (axis_lerp (\<lambda>Y. axis_lerp (\<lambda>X. corner g X Y Z) x' (int (shape0 g)))
                y' (int (shape1 g))) = d"
    if "0 \<le> Z" "Z < int (shape2 g)" for Z x' y'
    by (rule length_axis_lerp [OF pos(2)]) (simp add: lx that)
  have outer: "axis_lerp F z' (int (shape2 g)) = axis_lerp G z' (int (shape2 g))"
    if "\<And>Z. 0 \<le> Z \<Longrightarrow> Z < int (shape2 g) \<Longrightarrow> F Z = G Z" for F G z'
  proof -
    obtain Z0 Z1 c where e: "bracket z' (int (shape2 g)) = (Z0, Z1, c)"
      by (cases "bracket z' (int (shape2 g))") auto
    note r = bracket_range [OF pos(3) e]
    from r that have "F Z0 = G Z0" "F Z1 = G Z1" by simp_all
    then show ?thesis by (simp add: axis_lerp_def e)
  qed
  have middle: "axis_lerp F y' (int (shape1 g)) = axis_lerp G y' (int (shape1 g))"
    if "\<And>Y. 0 \<le> Y \<Longrightarrow> Y < int (shape1 g) \<Longrightarrow> F Y = G Y" for F G y'
  proof -
    obtain Y0 Y1 c where e: "bracket y' (int (shape1 g)) = (Y0, Y1, c)"
      by (cases "bracket y' (int (shape1 g))") auto
    note r = bracket_range [OF pos(2) e]
    from r that have "F Y0 = G Y0" "F Y1 = G Y1" by simp_all
    then show ?thesis by (simp add: axis_lerp_def e)
  qed
  { assume r: "- (2 ^ 63) \<le> x" "x < 2 ^ 63 - 1"
    have cx: "axis_lerp (\<lambda>X. corner g X Y Z) (clamp_real x 0 (real (shape0 g - 1))) (int (shape0 g))
              = axis_lerp (\<lambda>X. corner g X Y Z) x (int (shape0 g))"
      if "0 \<le> Y" "Y < int (shape1 g)" "0 \<le> Z" "Z < int (shape2 g)" for Y Z
      unfolding n
      by (rule axis_lerp_clamp [OF pos(1) small(1) _ r, where d = d])
         (simp add: corner_lengths [OF assms] that)
    show "VoxelGrid_forward g [x, y, z]
          = VoxelGrid_forward g [clamp_real x 0 (real (shape0 g - 1)), y, z]"
      unfolding VoxelGrid_forward_axis_lerp [OF assms]
      by (intro arg_cong [where f = Inr] outer middle cx [symmetric]) }
  { assume r: "- (2 ^ 63) \<le> y" "y < 2 ^ 63 - 1"
    have cy: "axis_lerp (\<lambda>Y. axis_lerp (\<lambda>X. corner g X Y Z) x (int (shape0 g)))
                (clamp_real y 0 (real (shape1 g - 1))) (int (shape1 g))
              = axis_lerp (\<lambda>Y. axis_lerp (\<lambda>X. corner g X Y Z) x (int (shape0 g))) y (int (shape1 g))"
      if "0 \<le> Z" "Z < int (shape2 g)" for Z
      unfolding n
      by (rule axis_lerp_clamp [OF pos(2) small(2) _ r, where d = d]) (simp add: lx that)
    show "VoxelGrid_forward g [x, y, z]
          = VoxelGrid_forward g [x, clamp_real y 0 (real (shape1 g - 1)), z]"
      unfolding VoxelGrid_forward_axis_lerp [OF assms]
      by (intro arg_cong [where f = Inr] outer cy [symmetric]) }
  { assume r: "- (2 ^ 63) \<le> z" "z < 2 ^ 63 - 1"
    have cz: "axis_lerp (\<lambda>Z. axis_lerp (\<lambda>Y. axis_lerp (\<lambda>X. corner g X Y Z) x (int (shape0 g)))
                y (int (shape1 g))) (clamp_real z 0 (real (shape2 g - 1))) (int (shape2 g))
              = axis_lerp (\<lambda>Z. axis_lerp (\<lambda>Y. axis_lerp (\<lambda>X. corner g X Y Z) x (int (shape0 g)))
                y (int (shape1 g))) z (int (shape2 g))"
      unfolding n
      by (rule axis_lerp_clamp [OF pos(3) small(3) _ r, where d = d]) (simp add: ly)
    show "VoxelGrid_forward g [x, y, z]
          = VoxelGrid_forward g [x, y, clamp_real z 0 (real (shape2 g - 1))]"
      unfolding VoxelGrid_forward_axis_lerp [OF assms]
      by (intro arg_cong [where f = Inr] cz [symmetric]) }
qed

lemma three_entries:
  assumes "length (P :: real list) = 3"
  shows "P = [P ! 0, P ! 1, P ! 2]"
  using assms by (intro nth_equalityI) (auto simp: nth_Cons' less_Suc_eq numeral_eq_Suc)

lemma VoxelGrid_forward_total:
  assumes "grid_wf g d" and "length P = 3"
  shows "\<exists>v. VoxelGrid_forward g P = Inr v \<and> length v = d"
proof -
  from assms(1) have pos: "0 < int (shape0 g)" "0 < int (shape1 g)" "0 < int (shape2 g)"
    by (simp_all add: grid_wf_def)
  have lx: "length (axis_lerp (\<lambda>X. corner g X Y Z) x (int (shape0 g))) = d"
    if "0 \<le> Y" "Y < int (shape1 g)" "0 \<le> Z" "Z < int (shape2 g)" for Y Z x
    by (rule length_axis_lerp [OF pos(1)]) (simp add: corner_lengths [OF assms(1)] that)
  have ly: "length (axis_lerp (\<lambda>Y. axis_lerp (\<lambda>X. corner g X Y Z) x (int (shape0 g)))
                y (int (shape1 g))) = d"
    if "0 \<le> Z" "Z < int (shape2 g)" for Z x y
    by (rule length_axis_lerp [OF pos(2)]) (simp add: lx that)
  have lz: "length (axis_lerp (\<lambda>Z. axis_lerp (\<lambda>Y. axis_lerp (\<lambda>X. corner g X Y Z)
                x (int (shape0 g))) y (int (shape1 g))) z (int (shape2 g))) = d" for x y z
    by (rule length_axis_lerp [OF pos(3)]) (simp add: ly)
  have "\<exists>v. VoxelGrid_forward g [P ! 0, P ! 1, P ! 2] = Inr v \<and> length v = d"
    unfolding VoxelGrid_forward_axis_lerp [OF assms(1)] using lz by simp
  with three_entries [OF assms(2)] show ?thesis by simp
qed





section \<open>The ray sampler\<close>

lemma six_entries:
  assumes "length (r :: real list) = 6"
  shows "r = [r ! 0, r ! 1, r ! 2, r ! 3, r ! 4, r ! 5]"
  using assms by (intro nth_equalityI) (auto simp: nth_Cons' less_Suc_eq numeral_eq_Suc)

lemma map2_take_drop:
  "map2 f (map (take n) rays) (map (drop n) rays) = map (\<lambda>r. f (take n r) (drop n r)) rays"
  by (induction rays) simp_all

lemma ray_point:
  assumes "length r = 6"
  shows "vadd (take 3 r) (vscale t (drop 3 r))
         = [r ! 0 + t * r ! 3, r ! 1 + t * r ! 4, r ! 2 + t * r ! 5]"
proof -
  obtain a b c d e f where r: "r = [a, b, c, d, e, f]"
    using six_entries [OF assms] by blast
  show ?thesis unfolding r by (simp add: vadd_def vscale_def)
qed

text \<open>
  Claim C8. With \<^verbatim>\<open>training=False\<close> the depths are used as they are, and for a batch of
  6-vectors \<^verbatim>\<open>sample_rays\<close> returns \<open>origin + depth * direction\<close> for every ray and
  depth, the origin being the first three components of the ray and the direction the
  last three. The result does not depend on the random draws, so two calls agree.
\<close>

theorem sample_rays_eval_mode:
  assumes "\<forall>r \<in> set rays. length r = 6"
  shows "actual_ts ts False rand = ts \<and>
         sample_rays ts rays False rand
           = map (\<lambda>r. map (\<lambda>t. [r ! 0 + t * r ! 3, r ! 1 + t * r ! 4, r ! 2 + t * r ! 5]) ts) rays \<and>
         sample_rays ts rays False rand
           = sample_along_ray ts (map (take 3) rays) (map (drop 3) rays) \<and>
         sample_rays ts rays False rand = sample_rays ts rays False rand'"
proof -
  have "sample_rays ts rays False rand
        = map (\<lambda>r. map (\<lambda>t. vadd (take 3 r) (vscale t (drop 3 r))) ts) rays"
    by (simp add: sample_rays_def actual_ts_def sample_along_ray_def map2_take_drop)
  also have "\<dots> = map (\<lambda>r. map (\<lambda>t. [r ! 0 + t * r ! 3, r ! 1 + t * r ! 4, r ! 2 + t * r ! 5]) ts) rays"
    using assms by (intro map_cong refl) (simp add: ray_point)
  finally show ?thesis
    by (simp add: sample_rays_def actual_ts_def)
qed

theorem sample_rays_eval_mode_witness:
  "list_all (\<lambda>r. length r = 6) [[0, 0, 0, 1, 0, 0], [1, 2, 3, 0, 1 / 2, 1 :: real]] \<and>
   sample_rays [1, 2] [[0, 0, 0, 1, 0, 0], [1, 2, 3, 0, 1 / 2, 1]] False (\<lambda>_. 1)
     = [[[1, 0, 0], [2, 0, 0]], [[1, 5 / 2, 4], [1, 3, 5]]]"
  using sample_rays_eval_mode
    [of "[[0, 0, 0, 1, 0, 0], [1, 2, 3, 0, 1 / 2, 1]]" "[1, 2]" "\<lambda>_. 1"]
  by simp

section \<open>The orthographic ray factory\<close>

lemma fill_row:
  assumes "j < length rays" and "n \<le> length (rays ! j)"
  shows "fold (\<lambda>k rays. rays[j := (rays ! j)[k := f k]]) [0..<n] rays
         = rays[j := map f [0..<n] @ drop n (rays ! j)]"
  using assms(2)
proof (induction n)
  case 0
  show ?case by simp
next
  case (Suc n)
  then have n: "n < length (rays ! j)" by simp
  have d: "drop n (rays ! j) = rays ! j ! n # drop (Suc n) (rays ! j)"
    using n by (simp add: Cons_nth_drop_Suc)
  have "(map f [0..<n] @ drop n (rays ! j))[n := f n] = map f [0..<n] @ f n # drop (Suc n) (rays ! j)"
    unfolding d by (simp add: list_update_append)
  with Suc.IH n assms(1) show ?case by simp
qed

lemma fill_rows:
  assumes "n \<le> length rays" and "\<forall>row \<in> set rays. length row = b"
  shows "fold (\<lambda>j rays. fold (\<lambda>k rays. rays[j := (rays ! j)[k := f j k]]) [0..<b] rays) [0..<n] rays
         = map (\<lambda>j. map (f j) [0..<b]) [0..<n] @ drop n rays"
  using assms(1)
proof (induction n)
  case 0
  show ?case by simp
next
  case (Suc n)
  then have n: "n < length rays" by simp
  let ?R = "map (\<lambda>j. map (f j) [0..<b]) [0..<n] @ drop n rays"
  have len: "length ?R = length rays" using n by simp
  have row: "?R ! n = rays ! n" using n by (simp add: nth_append)
  have b: "length (rays ! n) = b" using n assms(2) by simp
  have "fold (\<lambda>k rays. rays[n := (rays ! n)[k := f n k]]) [0..<b] ?R
        = ?R[n := map (f n) [0..<b] @ drop b (?R ! n)]"
    using n b by (intro fill_row) (simp_all add: nth_append)
  also have "\<dots> = ?R[n := map (f n) [0..<b]]"
    using b by (simp add: row)
  also have "\<dots> = map (\<lambda>j. map (f j) [0..<b]) [0..<n] @ (drop n rays)[0 := map (f n) [0..<b]]"
    by (simp add: list_update_append)
  also have "\<dots> = map (\<lambda>j. map (f j) [0..<b]) [0..<Suc n] @ drop (Suc n) rays"
    using n by (simp add: Cons_nth_drop_Suc [symmetric])
  finally show ?case using Suc.IH n by simp
qed

lemma fill_rays_map: "fill_rays a b f = map (\<lambda>j. map (f j) [0..<b]) [0..<a]"
  unfolding fill_rays_def by (subst fill_rows) simp_all

text \<open>
  Claim C9. \<^verbatim>\<open>create_rays\<close> fails exactly when the face identifier is none of
  \<open>x\<close>, \<open>-x\<close>, \<open>y\<close>, \<open>-y\<close>, \<open>z\<close>, \<open>-z\<close>, and then with the \<^verbatim>\<open>ValueError\<close> of message
  \<open>Invalid face id\<close>; for each of the six identifiers it returns a grid of 6-vectors.
\<close>

theorem create_rays_invalid_face:
  "((\<exists>e. create_rays config face off = Inl e)
      \<longleftrightarrow> face \<notin> {''x'', ''-x'', ''y'', ''-y'', ''z'', ''-z''}) \<and>
   (face \<notin> {''x'', ''-x'', ''y'', ''-y'', ''z'', ''-z''}
      \<longrightarrow> create_rays config face off = Inl (ValueError ''Invalid face id'')) \<and>
   (face \<in> {''x'', ''-x'', ''y'', ''-y'', ''z'', ''-z''}
      \<longrightarrow> (\<exists>rays. create_rays config face off = Inr rays \<and>
             (\<forall>row \<in> set rays. \<forall>ray \<in> set row. length ray = 6)))"
  by (auto simp: create_rays_def Let_def fill_rays_map split: prod.splits)

theorem create_rays_invalid_face_witness:
  "create_rays Config_default ''w'' 1 = Inl (ValueError ''Invalid face id'') \<and>
   (\<exists>rays. create_rays Config_default ''-y'' 1 = Inr rays)"
  using create_rays_invalid_face [of Config_default "''w''" 1]
    create_rays_invalid_face [of Config_default "''-y''" 1]
  by auto

section \<open>The depths of the renderer\<close>

lemma length_linspace: "length (linspace a b steps) = steps"
  by (simp add: linspace_def)

lemma linspace_nth:
  "i \<le> n \<Longrightarrow> linspace a b (n + 1) ! i = a + real i * ((b - a) / real n)"
  by (cases "n = 0") (simp_all add: linspace_def nth_append less_Suc_eq_le del: upt_Suc)

lemma midpoints_nth:
  assumes "length ds = n + 1" and "i < n"
  shows "map2 (\<lambda>u v. 0.5 * (u + v)) (tl ds) (butlast ds) ! i = 0.5 * (ds ! (i + 1) + ds ! i)"
  using assms by (simp add: nth_tl nth_butlast)

lemma t_values_init:
  "length (t_values (SimpleDVGO_init config r1 r2)) = num_samples config"
  "i < num_samples config \<Longrightarrow>
   t_values (SimpleDVGO_init config r1 r2) ! i
     = near config + (real i + 1 / 2) * ((far config - near config) / real (num_samples config))"
proof -
  let ?ds = "linspace (near config) (far config) (num_samples config + 1)"
  have len: "length ?ds = num_samples config + 1" by (rule length_linspace)
  show "length (t_values (SimpleDVGO_init config r1 r2)) = num_samples config"
    by (simp add: SimpleDVGO_init_def Let_def length_linspace)
  assume i: "i < num_samples config"
  have "t_values (SimpleDVGO_init config r1 r2) ! i = 0.5 * (?ds ! (i + 1) + ?ds ! i)"
    unfolding SimpleDVGO_init_def Let_def using midpoints_nth [OF len i] by simp
  also have "\<dots> = near config + (real i + 1 / 2) * ((far config - near config) / real (num_samples config))"
  proof -
    define h where "h = (far config - near config) / real (num_samples config)"
    have a: "?ds ! i = near config + real i * h"
      using i linspace_nth [of i "num_samples config"] by (simp add: h_def)
    have b: "?ds ! (i + 1) = near config + real (i + 1) * h"
      using i linspace_nth [of "i + 1" "num_samples config"] by (simp add: h_def)
    show ?thesis
      unfolding a b h_def [symmetric] by (simp add: algebra_simps)
  qed
  finally show "t_values (SimpleDVGO_init config r1 r2) ! i
     = near config + (real i + 1 / 2) * ((far config - near config) / real (num_samples config))" .
qed

lemma actual_ts_training:
  "length (actual_ts ts True rand) = length ts"
  "i < length ts \<Longrightarrow> actual_ts ts True rand ! i = ts ! i + (rand i - 0.5) / real (length ts)"
  by (simp_all add: actual_ts_def Let_def)

lemma jitter_keeps_order:
  fixes ts :: "real list"
  assumes n: "length ts = n"
    and step: "\<And>i. i < n \<Longrightarrow> ts ! i = a + (real i + 1 / 2) * (w / real n)"
    and w: "1 < w"
    and rand: "\<And>i. i < n \<Longrightarrow> 0 \<le> rand i \<and> rand i \<le> 1"
  shows "sorted_wrt (<) (actual_ts ts True rand)"
proof -
  have "actual_ts ts True rand ! i < actual_ts ts True rand ! j" if "i < j" "j < n" for i j
  proof -
    from that have pos: "0 < real n" by simp
    from that have gap: "1 \<le> real j - real i" by simp
    have "actual_ts ts True rand ! j - actual_ts ts True rand ! i
          = (real j - real i) * (w / real n) + (rand j - rand i) / real n"
      using that n by (simp add: actual_ts_training step algebra_simps diff_divide_distrib)
    also have "\<dots> = ((real j - real i) * w + (rand j - rand i)) / real n"
      by (simp add: add_divide_distrib)
    also have "\<dots> > 0"
    proof -
      have "w \<le> (real j - real i) * w"
        using gap w by (simp add: mult_le_cancel_right1)
      moreover have "- 1 \<le> rand j - rand i"
        using rand [of i] rand [of j] that by simp
      ultimately have "0 < (real j - real i) * w + (rand j - rand i)"
        using w by linarith
      with pos show ?thesis by simp
    qed
    finally show ?thesis by simp
  qed
  then show ?thesis
    by (simp add: sorted_wrt_iff_nth_less actual_ts_training n)
qed

text \<open>
  Claim C6. The depths of the default configuration are the 64 midpoints of 65 equally
  spaced values between 0.5 and 3.5. Whatever the draws \<open>rand i\<close> in \<open>[0, 1]\<close>, that is
  whatever the offsets \<open>(rand i - 0.5) / 64\<close> in \<open>[-1/128, 1/128]\<close>, the perturbed depths
  are strictly increasing.
\<close>

theorem default_depths_stay_ordered:
  assumes "\<forall>i<64. 0 \<le> rand i \<and> rand i \<le> 1"
  shows "length (t_values (SimpleDVGO_init Config_default rnd_rgb rnd_density)) = 64 \<and>
         (\<forall>i<64. actual_ts (t_values (SimpleDVGO_init Config_default rnd_rgb rnd_density)) True rand ! i
                    - t_values (SimpleDVGO_init Config_default rnd_rgb rnd_density) ! i
                  = (rand i - 0.5) / 64) \<and>
         sorted_wrt (<) (actual_ts (t_values (SimpleDVGO_init Config_default rnd_rgb rnd_density)) True rand)"
proof -
  let ?ts = "t_values (SimpleDVGO_init Config_default rnd_rgb rnd_density)"
  have len: "length ?ts = 64"
    using t_values_init(1) [of Config_default] by (simp add: Config_default_def)
  have nth: "?ts ! i = 0.5 + (real i + 1 / 2) * (3 / real (64::nat))" if "i < 64" for i
    using t_values_init(2) [of i Config_default] that by (simp add: Config_default_def)
  have "sorted_wrt (<) (actual_ts ?ts True rand)"
    using assms by (intro jitter_keeps_order [OF len nth]) simp_all
  moreover have "\<forall>i<64. actual_ts ?ts True rand ! i - ?ts ! i = (rand i - 0.5) / 64"
    by (simp add: actual_ts_training len)
  ultimately show ?thesis using len by simp
qed

theorem default_depths_stay_ordered_witness:
  "sorted_wrt (<) (actual_ts (t_values (SimpleDVGO_init Config_default (\<lambda>_ _ _ _. 0) (\<lambda>_ _ _ _. 0)))
      True (\<lambda>i. if even i then 1 else 0))"
  using default_depths_stay_ordered [of "\<lambda>i. if even i then 1 else 0" "\<lambda>_ _ _ _. 0" "\<lambda>_ _ _ _. 0"] by simp

section \<open>The renderer\<close>

lemma err_all_map:
  assumes "\<forall>x \<in> set xs. \<exists>v. f x = Inr v"
  shows "err_all (map f xs) = Inr (map (\<lambda>x. projr (f x)) xs)"
  using assms by (induction xs) (auto simp: err_map2_def)

lemma VoxelGrid_forward_batch_total:
  assumes "grid_wf g d" and "\<forall>row \<in> set samples. \<forall>P \<in> set row. length P = 3"
  shows "VoxelGrid_forward_batch g samples
         = Inr (map (map (\<lambda>P. projr (VoxelGrid_forward g P))) samples)"
proof -
  have point: "\<exists>v. VoxelGrid_forward g P = Inr v" if "row \<in> set samples" "P \<in> set row" for row P
    using VoxelGrid_forward_total [OF assms(1), of P] assms(2) that by blast
  have row: "err_all (map (VoxelGrid_forward g) row)
             = Inr (map (\<lambda>P. projr (VoxelGrid_forward g P)) row)" if "row \<in> set samples" for row
    using point [OF that] by (intro err_all_map) blast
  have "err_all (map (\<lambda>row. err_all (map (VoxelGrid_forward g) row)) samples)
        = Inr (map (\<lambda>row. projr (err_all (map (VoxelGrid_forward g) row))) samples)"
    using row by (intro err_all_map) simp
  also have "map (\<lambda>row. projr (err_all (map (VoxelGrid_forward g) row))) samples
             = map (map (\<lambda>P. projr (VoxelGrid_forward g P))) samples"
    using row by (intro map_cong refl) simp
  finally show ?thesis by (simp add: VoxelGrid_forward_batch_def)
qed

lemma weighted_sum_bounds:
  assumes "length ws = length cs" and "\<forall>w \<in> set ws. (0::real) \<le> w"
    and "\<forall>c \<in> set cs. 0 \<le> c ! j \<and> c ! j \<le> 1"
  shows "0 \<le> sum_list (map2 (\<lambda>w c. w * c ! j) ws cs) \<and>
         sum_list (map2 (\<lambda>w c. w * c ! j) ws cs) \<le> sum_list ws"
  using assms
proof (induction ws cs rule: list_induct2)
  case Nil
  show ?case by simp
next
  case (Cons w ws c cs)
  then have w: "0 \<le> w" and c: "0 \<le> c ! j" "c ! j \<le> 1" by simp_all
  from w c have "0 \<le> w * c ! j" "w * c ! j \<le> w"
    by (simp_all add: mult_left_le)
  with Cons show ?case by simp
qed

lemma render_along_ray_range:
  assumes dens: "\<forall>d \<in> set ds. 0 \<le> d"
    and len: "length cs = length ds"
    and cols: "\<forall>c \<in> set cs. length c = length bg \<and> (\<forall>x \<in> set c. 0 \<le> x \<and> x \<le> 1)"
    and bg: "\<forall>x \<in> set bg. 0 \<le> x \<and> x \<le> 1"
  shows "\<forall>x \<in> set (render_along_ray ds cs bg). 0 \<le> x \<and> x \<le> 1"
proof -
  have "0 \<le> render_along_ray ds cs bg ! j \<and> render_along_ray ds cs bg ! j \<le> 1"
    if j: "j < length bg" for j
  proof -
    let ?S = "sum_list (map2 (\<lambda>w c. w * c ! j) (ray_weights ds) cs)"
    let ?acc = "sum_list (ray_weights ds)"
    have "\<forall>c \<in> set cs. 0 \<le> c ! j \<and> c ! j \<le> 1"
      using cols j by (metis nth_mem)
    then have S: "0 \<le> ?S" "?S \<le> ?acc"
      using weighted_sum_bounds [of "ray_weights ds" cs j] len dens
      by (simp_all add: length_ray_weights ray_weights_nonneg)
    have "0 \<le> sum_list ds" using dens by (simp add: sum_list_nonneg)
    then have acc: "0 \<le> ?acc" "?acc \<le> 1"
      unfolding sum_list_ray_weights by simp_all
    have b: "0 \<le> bg ! j" "bg ! j \<le> 1" using bg j by simp_all
    have lo: "0 \<le> (1 - ?acc) * bg ! j" using acc b by simp
    have hi: "(1 - ?acc) * bg ! j \<le> 1 - ?acc"
      using acc b by (simp add: mult_left_le)
    from S lo hi show ?thesis
      unfolding render_along_ray_nth [OF j] by linarith
  qed
  then show ?thesis
    by (auto simp: in_set_conv_nth length_render_along_ray)
qed

lemma length_actual_ts: "length (actual_ts ts training rand) = length ts"
  by (simp add: actual_ts_def Let_def)

lemma sample_rays_points:
  "sample_rays ts rays training rand
   = map (\<lambda>r. map (\<lambda>t. vadd (take 3 r) (vscale t (drop 3 r))) (actual_ts ts training rand)) rays"
  by (simp add: sample_rays_def sample_along_ray_def map2_take_drop)

lemma relu_nonneg: "0 \<le> relu v"
  by (simp add: relu_def)

lemma clamp_real_unit: "0 \<le> clamp_real c 0 1 \<and> clamp_real c 0 1 \<le> 1"
  by (simp add: clamp_real_def)

lemma VoxelGrid_init_wf:
  assumes "shp = (sx, sy, sz)" and "sx + 1 < 2 ^ 63" "sy + 1 < 2 ^ 63" "sz + 1 < 2 ^ 63"
  shows "grid_wf (VoxelGrid_init shp d mx rnd) d"
proof -
  have hd: "[0..<n + 1] = 0 # [1..<n + 1]" for n
    by (simp add: upt_conv_Cons del: upt_Suc)
  show ?thesis
    unfolding assms(1) grid_wf_def shape0_def shape1_def shape2_def VoxelGrid_init_def prod.case
    unfolding hd [of sx] hd [of sy]
    using assms(2-4) by (auto simp del: upt_Suc)
qed

lemma SimpleDVGO_init_wf:
  assumes "min_corner config = (x_lo, y_lo, z_lo)" and "max_corner config = (x_hi, y_hi, z_hi)"
    and "x_lo \<noteq> x_hi" "y_lo \<noteq> y_hi" "z_lo \<noteq> z_hi"
    and "shape config = (n, m, p)" and "n + 1 < 2 ^ 63" "m + 1 < 2 ^ 63" "p + 1 < 2 ^ 63"
  shows "dvgo_wf (SimpleDVGO_init config rnd_rgb rnd_density)"
  using assms(1-5) VoxelGrid_init_wf [OF assms(6-9)]
  by (simp add: dvgo_wf_def SimpleDVGO_init_def Let_def tensor3_def assms(6))

text \<open>
  The range of the colours in exact arithmetic. For a batch of 6-vector rays and a
  background with every channel in \<open>[0, 1]\<close>, every channel of every colour of
  \<^verbatim>\<open>SimpleDVGO.forward\<close> is in \<open>[0, 1]\<close>: the density is floored at zero, the colour is
  clamped per channel, and the exact weights are nonnegative and sum to less than 1.
  This is a property of the formula. The float32 of the source rounds every weight, and
  torch fixes no order for the sum over the samples, so the sum can reach 1 or pass it
  by a unit in the last place: the bits returned are outside what is stated here.
\<close>

lemma SimpleDVGO_forward_exact_range:
  assumes wf: "dvgo_wf m"
    and rays: "\<forall>r \<in> set rays. length r = 6"
    and bg3: "length (background_t m) = 3"
    and bg: "\<forall>c \<in> set (background_t m). 0 \<le> c \<and> c \<le> 1"
  shows "(\<forall>cols. SimpleDVGO_forward m rays training rand = Inr cols \<longrightarrow>
            length cols = length rays \<and>
            (\<forall>col \<in> set cols. length col = 3 \<and> (\<forall>c \<in> set col. 0 \<le> c \<and> c \<le> 1))) \<and>
         (if length rays = 1 \<and> length (t_values m) = 1
          then SimpleDVGO_forward m rays training rand = Inl IndexError
          else (\<exists>cols. SimpleDVGO_forward m rays training rand = Inr cols))"
proof -
  define N where "N = length (t_values m)"
  define B where "B = length rays"
  define R where "R = map (map (\<lambda>s. vdiv (vmul (shape_t m) (vsub s (min_t m)))
                                        (vsub (max_t m) (min_t m))))
                       (sample_rays (t_values m) rays training rand)"
  define fd where "fd = (\<lambda>P. projr (VoxelGrid_forward (density_voxel_grid m) P))"
  define fc where "fc = (\<lambda>P. projr (VoxelGrid_forward (rgb_voxel_grid m) P))"
  define density where "density = map (map (\<lambda>v. relu (v ! 0))) (map (map fd) R)"
  define rgb where "rgb = map (map (map (\<lambda>c. clamp_real c 0 1))) (map (map fc) R)"
  from wf have gd: "grid_wf (density_voxel_grid m) 1" and gc: "grid_wf (rgb_voxel_grid m) 3"
    and l3: "length (min_t m) = 3" "length (max_t m) = 3" "length (shape_t m) = 3"
    by (simp_all add: dvgo_wf_def)
  have R_len: "length R = B"
    by (simp add: R_def B_def sample_rays_points)
  have R_rows: "length row = N \<and> (\<forall>P \<in> set row. length P = 3)" if "row \<in> set R" for row
    using that rays l3
    by (auto simp: R_def N_def sample_rays_points length_actual_ts vdiv_def vmul_def vsub_def
        vadd_def vscale_def)
  have D: "VoxelGrid_forward_batch (density_voxel_grid m) R = Inr (map (map fd) R)"
    unfolding fd_def using R_rows by (intro VoxelGrid_forward_batch_total [OF gd]) blast
  have C: "VoxelGrid_forward_batch (rgb_voxel_grid m) R = Inr (map (map fc) R)"
    unfolding fc_def using R_rows by (intro VoxelGrid_forward_batch_total [OF gc]) blast
  have eq: "SimpleDVGO_forward m rays training rand
      = (if B = 1 \<and> N = 1 then Inl IndexError
         else if N = 1 then
           Inr (map (\<lambda>ray_rgb. render_along_ray (concat density)
                        (replicate B (hd ray_rgb)) (background_t m)) rgb)
         else Inr (map2 (\<lambda>d c. render_along_ray d c (background_t m)) density rgb))"
    unfolding SimpleDVGO_forward_def Let_def R_def [symmetric] D C sum.case
      density_def [symmetric] rgb_def [symmetric] B_def [symmetric] N_def [symmetric] ..
  have d_len: "length density = B" and c_len: "length rgb = B"
    by (simp_all add: density_def rgb_def R_len)
  have d_rows: "length d = N \<and> (\<forall>x \<in> set d. 0 \<le> x)" if "d \<in> set density" for d
    using that R_rows by (auto simp: density_def relu_nonneg)
  have fc_len: "length (fc P) = 3" if "length P = 3" for P
    using VoxelGrid_forward_total [OF gc that] by (auto simp: fc_def)
  have c_rows: "length cs = N \<and>
      (\<forall>c \<in> set cs. length c = length (background_t m) \<and> (\<forall>x \<in> set c. 0 \<le> x \<and> x \<le> 1))"
    if "cs \<in> set rgb" for cs
    using that R_rows fc_len by (auto simp: rgb_def bg3 clamp_real_unit)
  have general: "\<forall>x \<in> set (render_along_ray d cs (background_t m)). 0 \<le> x \<and> x \<le> 1"
    if "d \<in> set density" "cs \<in> set rgb" for d cs
    using d_rows [OF that(1)] c_rows [OF that(2)] bg
    by (intro render_along_ray_range) simp_all
  have single: "\<forall>x \<in> set (render_along_ray (concat density) (replicate B (hd cs)) (background_t m)).
                 0 \<le> x \<and> x \<le> 1"
    if "cs \<in> set rgb" "N = 1" for cs
  proof (rule render_along_ray_range)
    show "\<forall>d \<in> set (concat density). 0 \<le> d"
      using d_rows by auto
    have "map length density = replicate B 1"
      using d_rows d_len that(2) by (intro replicate_eqI) auto
    then show "length (replicate B (hd cs)) = length (concat density)"
      by (simp add: length_concat sum_list_replicate)
    from c_rows [OF that(1)] that(2) have "cs \<noteq> []" by auto
    then have "hd cs \<in> set cs" by simp
    with c_rows [OF that(1)]
    show "\<forall>c \<in> set (replicate B (hd cs)).
            length c = length (background_t m) \<and> (\<forall>x \<in> set c. 0 \<le> x \<and> x \<le> 1)"
      by auto
    show "\<forall>x \<in> set (background_t m). 0 \<le> x \<and> x \<le> 1" by (rule bg)
  qed
  have range: "length cols = length rays \<and>
      (\<forall>col \<in> set cols. length col = 3 \<and> (\<forall>c \<in> set col. 0 \<le> c \<and> c \<le> 1))"
    if "SimpleDVGO_forward m rays training rand = Inr cols" for cols
  proof (cases "N = 1")
    case True
    with that eq have cols: "cols = map (\<lambda>ray_rgb. render_along_ray (concat density)
                        (replicate B (hd ray_rgb)) (background_t m)) rgb"
      by (simp split: if_splits)
    show ?thesis
      unfolding cols using single True
      by (auto simp: c_len B_def [symmetric] length_render_along_ray bg3)
  next
    case False
    with that eq have cols: "cols = map2 (\<lambda>d c. render_along_ray d c (background_t m)) density rgb"
      by simp
    have "\<forall>x \<in> set (render_along_ray d cs (background_t m)). 0 \<le> x \<and> x \<le> 1"
      if "(d, cs) \<in> set (zip density rgb)" for d cs
      using that by (intro general) (auto dest: set_zip_leftD set_zip_rightD)
    then show ?thesis
      unfolding cols
      by (auto simp: d_len c_len B_def [symmetric] length_render_along_ray bg3)
  qed
  have ret: "if length rays = 1 \<and> length (t_values m) = 1
      then SimpleDVGO_forward m rays training rand = Inl IndexError
      else (\<exists>cols. SimpleDVGO_forward m rays training rand = Inr cols)"
    unfolding eq B_def [symmetric] N_def [symmetric] by simp
  from range ret show ?thesis by blast
qed

end
